theory Spec2Isabelle
  imports Main
begin

section \<open>Strings and numbers of the host language\<close>

text \<open>
  Strings are lists of 8-bit code units. Numbers that the program only ever uses as
  millisecond timestamps, byte sizes and counters are integers.
\<close>

definition isDigit :: "char \<Rightarrow> bool" where
  "isDigit c = (let n = (of_char c :: nat) in 48 \<le> n \<and> n \<le> 57)"

definition isUpper :: "char \<Rightarrow> bool" where
  "isUpper c = (let n = (of_char c :: nat) in 65 \<le> n \<and> n \<le> 90)"

definition isLower :: "char \<Rightarrow> bool" where
  "isLower c = (let n = (of_char c :: nat) in 97 \<le> n \<and> n \<le> 122)"

definition isAlnum :: "char \<Rightarrow> bool" where
  "isAlnum c = (isDigit c \<or> isUpper c \<or> isLower c)"

text \<open>\<open>String.prototype.trim\<close>: the white space and line terminators below 256.\<close>

definition isWhiteSpace :: "char \<Rightarrow> bool" where
  "isWhiteSpace c = (let n = (of_char c :: nat) in (9 \<le> n \<and> n \<le> 13) \<or> n = 32 \<or> n = 160)"

definition trim :: "string \<Rightarrow> string" where
  "trim s = rev (dropWhile isWhiteSpace (rev (dropWhile isWhiteSpace s)))"

text \<open>\<open>String.prototype.split\<close> with a one-character separator; the result is never empty.\<close>

fun split_on :: "char \<Rightarrow> string \<Rightarrow> string list" where
  "split_on c [] = [[]]"
| "split_on c (x # xs) =
     (if x = c then [] # split_on c xs
      else (x # hd (split_on c xs)) # tl (split_on c xs))"

text \<open>\<open>Number.prototype.toString\<close> on an integer.\<close>

fun digits_of_nat :: "nat \<Rightarrow> string" where
  "digits_of_nat n =
     (if n < 10 then [char_of (48 + n)]
      else digits_of_nat (n div 10) @ [char_of (48 + n mod 10)])"

definition toString :: "int \<Rightarrow> string" where
  "toString i = (if i < 0 then CHR ''-'' # digits_of_nat (nat (- i)) else digits_of_nat (nat i))"

text \<open>
  A thrown value: an \<open>Error\<close> with its message, or anything else. The handlers report
  \<open>error instanceof Error ? error.message : fallback\<close>.
\<close>

datatype thrown = Error string | NonError

definition messageOr :: "string \<Rightarrow> thrown \<Rightarrow> string" where
  "messageOr fallback err = (case err of Error msg \<Rightarrow> msg | NonError \<Rightarrow> fallback)"

text \<open>A string or \<open>null\<close> in a condition: \<open>null\<close> and the empty string are falsy.\<close>

definition truthy :: "string option \<Rightarrow> bool" where
  "truthy v = (case v of None \<Rightarrow> False | Some s \<Rightarrow> s \<noteq> [])"

section \<open>URL query serialisation\<close>

text \<open>
  \<open>URLSearchParams\<close> serialises names and values with the
  application/x-www-form-urlencoded serialiser: a space becomes \<open>+\<close>, the
  alphanumerics and \<open>* - . _\<close> stay, and every other byte of the UTF-8 encoding becomes
  \<open>%XX\<close>; a code unit from 128 to 255 has two bytes.
\<close>

definition hexDigit :: "nat \<Rightarrow> char" where
  "hexDigit n = ''0123456789ABCDEF'' ! (n mod 16)"

definition percentByte :: "nat \<Rightarrow> string" where
  "percentByte b = [CHR ''%'', hexDigit (b div 16), hexDigit (b mod 16)]"

definition formSafe :: "char \<Rightarrow> bool" where
  "formSafe c = (isAlnum c \<or> c = CHR ''*'' \<or> c = CHR ''-'' \<or> c = CHR ''.'' \<or> c = CHR ''_'')"

definition urlencodeUnit :: "char \<Rightarrow> string" where
  "urlencodeUnit c =
     (let n = (of_char c :: nat)
      in if c = CHR '' '' then ''+''
         else if formSafe c then [c]
         else if n < 128 then percentByte n
         else percentByte (192 + n div 64) @ percentByte (128 + n mod 64))"

definition urlencode :: "string \<Rightarrow> string" where
  "urlencode s = concat (map urlencodeUnit s)"

type_synonym searchParams = "(string \<times> string) list"

text \<open>\<open>searchParams.set\<close>: overwrite the first pair of that name and drop the others, or append.\<close>

fun replaceFirst :: "string \<Rightarrow> string \<Rightarrow> searchParams \<Rightarrow> searchParams" where
  "replaceFirst k v [] = []"
| "replaceFirst k v ((k', v') # ps) =
     (if k' = k then (k, v) # filter (\<lambda>p. fst p \<noteq> k) ps else (k', v') # replaceFirst k v ps)"

definition searchParams_set :: "string \<Rightarrow> string \<Rightarrow> searchParams \<Rightarrow> searchParams" where
  "searchParams_set k v ps = (if k \<in> fst ` set ps then replaceFirst k v ps else ps @ [(k, v)])"

fun joinWith :: "string \<Rightarrow> string list \<Rightarrow> string" where
  "joinWith sep [] = []"
| "joinWith sep [x] = x"
| "joinWith sep (x # y # ys) = x @ sep @ joinWith sep (y # ys)"

definition serializeParams :: "searchParams \<Rightarrow> string" where
  "serializeParams ps = joinWith ''&'' (map (\<lambda>(k, v). urlencode k @ ''='' @ urlencode v) ps)"

text \<open>\<open>url.toString()\<close> of a URL that has a path and no fragment.\<close>

definition url_toString :: "string \<Rightarrow> searchParams \<Rightarrow> string" where
  "url_toString base ps = (if ps = [] then base else base @ ''?'' @ serializeParams ps)"

section \<open>OAuth library (lib/oauth)\<close>

text \<open>
  The module that \<open>handlers/oauth-handlers\<close> imports as \<open>../lib/oauth\<close>; in the sources
  it is the second module of the file \<open>src/main/lib/updater.ts\<close>.
\<close>

definition CLIENT_ID :: string where
  "CLIENT_ID = ''9d1c250a-e61b-44d9-88ed-5944d1962f5e''"

definition AUTHORIZATION_ENDPOINT_MAX :: string where
  "AUTHORIZATION_ENDPOINT_MAX = ''https://claude.ai/oauth/authorize''"

definition AUTHORIZATION_ENDPOINT_CONSOLE :: string where
  "AUTHORIZATION_ENDPOINT_CONSOLE = ''https://console.anthropic.com/oauth/authorize''"

definition REDIRECT_URI :: string where
  "REDIRECT_URI = ''https://console.anthropic.com/oauth/code/callback''"

definition SCOPES :: string where
  "SCOPES = ''org:create_api_key user:profile user:inference''"

record OAuthTokens =
  refresh :: string
  access :: string
  expires :: int

record PKCEChallenge =
  challenge :: string
  verifier :: string

datatype AuthMode = Max | Console

text \<open>
  The alphabet of what the PKCE generator of the openauth library returns: a verifier and
  a challenge are base64url strings without padding.
\<close>

definition isBase64Url :: "char \<Rightarrow> bool" where
  "isBase64Url c = (isAlnum c \<or> c = CHR ''-'' \<or> c = CHR ''_'')"


text \<open>
  Modelled from the spec: the persisted app configuration of lib/config, which is not
  among the sources. It is a flat document with the recognised keys \<open>workspaceDir\<close>,
  \<open>debugMode\<close>, \<open>apiKey\<close>, \<open>anthropicBaseUrl\<close> and \<open>oauthTokens\<close>; an absent key is
  \<open>None\<close>.
\<close>

record AppConfig =
  workspaceDir :: "string option"
  debugMode :: "bool option"
  apiKey :: "string option"
  anthropicBaseUrl :: "string option"
  oauthTokens :: "OAuthTokens option"

text \<open>
  The requests sent to the token endpoint. The constant members of the JSON body
  (\<open>grant_type\<close>, \<open>client_id\<close>, \<open>redirect_uri\<close>) are implied by the constructor.
\<close>

datatype token_request =
  ExchangeRequest (req_code: string) (req_state: "string option") (req_code_verifier: string)
| RefreshRequest (req_refresh_token: string)

text \<open>The JSON body of a token response, with the members the code reads.\<close>

record token_json =
  refresh_token :: string
  access_token :: string
  expires_in :: int

text \<open>
  What \<open>await fetch(...)\<close> followed by \<open>await response.json()\<close> can do: \<open>fetch\<close>
  rejects, or it resolves to a response with its \<open>ok\<close> flag, its status text and a body
  that parses (\<open>Some\<close>) or makes \<open>json()\<close> reject (\<open>None\<close>).
\<close>

datatype 'a fetch_result =
  FetchError thrown
| Response (resp_ok: bool) (resp_statusText: string) (resp_json: "'a option")

text \<open>
  Everything outside the process that the OAuth code consults: the clock when the expiry
  is tested and when a token response has arrived, the two HTTP endpoints, the PKCE
  generator of the openauth library, the operating-system URL opener, and whether writing
  the configuration file throws (\<open>Some\<close>) or succeeds (\<open>None\<close>), and the variable
  \<open>ANTHROPIC_API_KEY\<close> of the process environment.
\<close>

record env =
  now :: int
  now_resp :: int
  token_endpoint :: "token_request \<Rightarrow> token_json fetch_result"
  create_key_endpoint :: "string \<Rightarrow> string fetch_result"
  generatePKCE :: "thrown + PKCEChallenge"
  openExternal :: "string \<Rightarrow> thrown option"
  disk :: "thrown option"
  ANTHROPIC_API_KEY :: "string option"

text \<open>Modelled from the spec: \<open>loadConfig\<close> of lib/config reads the persisted document.\<close>

definition loadConfig :: "AppConfig \<Rightarrow> AppConfig" where
  "loadConfig store = store"

text \<open>
  Modelled from the spec: \<open>saveConfig\<close> of lib/config replaces the persisted document as a
  whole, or throws and leaves it as it was.
\<close>

definition saveConfig :: "env \<Rightarrow> AppConfig \<Rightarrow> AppConfig \<Rightarrow> thrown + AppConfig" where
  "saveConfig e cfg store = (case disk e of Some err \<Rightarrow> Inl err | None \<Rightarrow> Inr cfg)"

definition generatePKCEChallenge :: "env \<Rightarrow> thrown + PKCEChallenge" where
  "generatePKCEChallenge e =
     (case generatePKCE e of
        Inl err \<Rightarrow> Inl err
      | Inr pkce \<Rightarrow> Inr \<lparr>challenge = challenge pkce, verifier = verifier pkce\<rparr>)"

definition getAuthorizationUrl :: "AuthMode \<Rightarrow> PKCEChallenge \<Rightarrow> string" where
  "getAuthorizationUrl mode pkce =
     (let baseUrl = (if mode = Max then AUTHORIZATION_ENDPOINT_MAX
                     else AUTHORIZATION_ENDPOINT_CONSOLE);
          p1 = searchParams_set ''code'' ''true'' [];
          p2 = searchParams_set ''client_id'' CLIENT_ID p1;
          p3 = searchParams_set ''response_type'' ''code'' p2;
          p4 = searchParams_set ''redirect_uri'' REDIRECT_URI p3;
          p5 = searchParams_set ''scope'' SCOPES p4;
          p6 = searchParams_set ''code_challenge'' (challenge pkce) p5;
          p7 = searchParams_set ''code_challenge_method'' ''S256'' p6;
          p8 = searchParams_set ''state'' (verifier pkce) p7
      in url_toString baseUrl p8)"

text \<open>
  The token of a response: \<open>None\<close> when \<open>fetch\<close> or \<open>json()\<close> rejects (the \<open>catch\<close>)
  or the response is not \<open>ok\<close>.
\<close>

definition tokensOfResponse :: "env \<Rightarrow> token_json fetch_result \<Rightarrow> OAuthTokens option" where
  "tokensOfResponse e r =
     (case r of
        FetchError err \<Rightarrow> None
      | Response ok statusText body \<Rightarrow>
          if \<not> ok then None
          else (case body of
                  None \<Rightarrow> None
                | Some json \<Rightarrow>
                    Some \<lparr>refresh = refresh_token json, access = access_token json,
                          expires = now_resp e + expires_in json * 1000\<rparr>))"

definition exchangeRequest :: "string \<Rightarrow> string \<Rightarrow> token_request" where
  "exchangeRequest codeStr verifierStr =
     (let splits = split_on CHR ''#'' codeStr;
          authCode = hd splits;
          state = (if 1 < length splits then Some (splits ! 1) else None)
      in ExchangeRequest authCode state verifierStr)"

definition exchangeCodeForTokens ::
  "env \<Rightarrow> string \<Rightarrow> string \<Rightarrow> OAuthTokens option \<times> token_request list" where
  "exchangeCodeForTokens e codeStr verifierStr =
     (let req = exchangeRequest codeStr verifierStr
      in (tokensOfResponse e (token_endpoint e req), [req]))"

definition refreshAccessToken ::
  "env \<Rightarrow> string \<Rightarrow> OAuthTokens option \<times> token_request list" where
  "refreshAccessToken e refreshToken =
     (let req = RefreshRequest refreshToken
      in (tokensOfResponse e (token_endpoint e req), [req]))"

definition createApiKey :: "env \<Rightarrow> string \<Rightarrow> string option" where
  "createApiKey e accessToken =
     (case create_key_endpoint e accessToken of
        FetchError err \<Rightarrow> None
      | Response ok statusText body \<Rightarrow> if \<not> ok then None else body)"

definition saveOAuthTokens :: "env \<Rightarrow> OAuthTokens \<Rightarrow> AppConfig \<Rightarrow> thrown + AppConfig" where
  "saveOAuthTokens e tokens store =
     saveConfig e ((loadConfig store)\<lparr>oauthTokens := Some tokens\<rparr>) store"

definition getOAuthTokens :: "AppConfig \<Rightarrow> OAuthTokens option" where
  "getOAuthTokens store = oauthTokens (loadConfig store)"

definition clearOAuthTokens :: "env \<Rightarrow> AppConfig \<Rightarrow> thrown + AppConfig" where
  "clearOAuthTokens e store = saveConfig e ((loadConfig store)\<lparr>oauthTokens := None\<rparr>) store"

definition isTokenExpired :: "env \<Rightarrow> OAuthTokens \<Rightarrow> bool" where
  "isTokenExpired e tokens = (let fiveMinutes = 5 * 60 * 1000 in expires tokens < now e + fiveMinutes)"

text \<open>
  \<open>getValidAccessToken\<close> resolves to a token or \<open>null\<close> (\<open>Inr\<close>), or rejects with what
  \<open>saveConfig\<close> threw (\<open>Inl\<close>). The result comes with the configuration store afterwards
  and the requests that went to the token endpoint.
\<close>

definition getValidAccessToken ::
  "env \<Rightarrow> AppConfig \<Rightarrow> (thrown + string option) \<times> AppConfig \<times> token_request list" where
  "getValidAccessToken e store =
     (case getOAuthTokens store of
        None \<Rightarrow> (Inr None, store, [])
      | Some tokens \<Rightarrow>
          if isTokenExpired e tokens then
            (case refreshAccessToken e (refresh tokens) of
               (None, reqs) \<Rightarrow> (Inr None, store, reqs)
             | (Some newTokens, reqs) \<Rightarrow>
                 (case saveOAuthTokens e newTokens store of
                    Inl err \<Rightarrow> (Inl err, store, reqs)
                  | Inr store' \<Rightarrow> (Inr (Some (access newTokens)), store', reqs)))
          else (Inr (Some (access tokens)), store, []))"

text \<open>A refresh attempt fails when the endpoint rejects it or the request errors.\<close>

definition refreshFails :: "env \<Rightarrow> OAuthTokens \<Rightarrow> bool" where
  "refreshFails e tokens =
     (case token_endpoint e (RefreshRequest (refresh tokens)) of
        FetchError err \<Rightarrow> True
      | Response ok statusText body \<Rightarrow> \<not> ok \<or> body = None)"

section \<open>OAuth IPC handlers (handlers/oauth-handlers)\<close>

text \<open>
  The state of the main process that the handlers touch: the module variable
  \<open>currentPKCEVerifier\<close> and the persisted configuration.
\<close>

record main_state =
  currentPKCEVerifier :: "string option"
  config :: AppConfig

record OAuthStartLoginResponse =
  start_success :: bool
  start_authUrl :: "string option"
  start_error :: "string option"

datatype login_mode = ModeOAuth | ModeApiKey

record OAuthCompleteLoginResponse =
  complete_success :: bool
  complete_mode :: "login_mode option"
  complete_apiKey :: "string option"
  complete_error :: "string option"

record OAuthStatusResponse =
  authenticated :: bool
  expiresAt :: "int option"

record OAuthAccessTokenResponse =
  token_success :: bool
  accessToken :: "string option"
  token_error :: "string option"

definition oauth_start_login ::
  "env \<Rightarrow> AuthMode \<Rightarrow> main_state \<Rightarrow> OAuthStartLoginResponse \<times> main_state" where
  "oauth_start_login e mode st =
     (case generatePKCEChallenge e of
        Inl err \<Rightarrow>
          (\<lparr>start_success = False, start_authUrl = None,
            start_error = Some (messageOr ''Unknown error'' err)\<rparr>, st)
      | Inr pkce \<Rightarrow>
          (let st1 = st\<lparr>currentPKCEVerifier := Some (verifier pkce)\<rparr>;
               authUrl = getAuthorizationUrl mode pkce
           in case openExternal e authUrl of
                Some err \<Rightarrow>
                  (\<lparr>start_success = False, start_authUrl = None,
                    start_error = Some (messageOr ''Unknown error'' err)\<rparr>, st1)
              | None \<Rightarrow>
                  (\<lparr>start_success = True, start_authUrl = Some authUrl, start_error = None\<rparr>,
                   st1)))"

definition completeFailure :: "string \<Rightarrow> OAuthCompleteLoginResponse" where
  "completeFailure msg =
     \<lparr>complete_success = False, complete_mode = None, complete_apiKey = None,
      complete_error = Some msg\<rparr>"

definition oauth_complete_login ::
  "env \<Rightarrow> string \<Rightarrow> bool \<Rightarrow> main_state \<Rightarrow> OAuthCompleteLoginResponse \<times> main_state" where
  "oauth_complete_login e codeStr createKey st =
     (if \<not> truthy (currentPKCEVerifier st) then
        (completeFailure ''No active OAuth flow. Please start the login process again.'', st)
      else
        (case fst (exchangeCodeForTokens e codeStr (the (currentPKCEVerifier st))) of
           None \<Rightarrow> (completeFailure ''Failed to exchange authorization code for tokens'', st)
         | Some tokens \<Rightarrow>
             if createKey then
               (let apiKey = createApiKey e (access tokens)
                in if \<not> truthy apiKey then (completeFailure ''Failed to create API key'', st)
                   else
                     (\<lparr>complete_success = True, complete_mode = Some ModeApiKey,
                       complete_apiKey = apiKey, complete_error = None\<rparr>,
                      st\<lparr>currentPKCEVerifier := None\<rparr>))
             else
               (case saveOAuthTokens e tokens (config st) of
                  Inl err \<Rightarrow>
                    (completeFailure (messageOr ''Unknown error'' err),
                     st\<lparr>currentPKCEVerifier := None\<rparr>)
                | Inr store' \<Rightarrow>
                    (\<lparr>complete_success = True, complete_mode = Some ModeOAuth,
                      complete_apiKey = None, complete_error = None\<rparr>,
                     st\<lparr>config := store', currentPKCEVerifier := None\<rparr>))))"

definition oauth_cancel :: "main_state \<Rightarrow> bool \<times> main_state" where
  "oauth_cancel st = (True, st\<lparr>currentPKCEVerifier := None\<rparr>)"

text \<open>\<open>tokens?.expires || null\<close>: the number \<open>0\<close> is falsy.\<close>

definition oauth_get_status :: "main_state \<Rightarrow> OAuthStatusResponse" where
  "oauth_get_status st =
     (let tokens = getOAuthTokens (config st)
      in \<lparr>authenticated = (tokens \<noteq> None),
          expiresAt = (case tokens of
                         None \<Rightarrow> None
                       | Some t \<Rightarrow> if expires t = 0 then None else Some (expires t))\<rparr>)"

definition oauth_logout :: "env \<Rightarrow> main_state \<Rightarrow> (bool \<times> string option) \<times> main_state" where
  "oauth_logout e st =
     (case clearOAuthTokens e (config st) of
        Inl err \<Rightarrow> ((False, Some (messageOr ''Unknown error'' err)), st)
      | Inr store' \<Rightarrow> ((True, None), st\<lparr>config := store'\<rparr>))"

definition oauth_get_access_token ::
  "env \<Rightarrow> main_state \<Rightarrow> OAuthAccessTokenResponse \<times> main_state" where
  "oauth_get_access_token e st =
     (case getValidAccessToken e (config st) of
        (Inl err, store', reqs) \<Rightarrow>
          (\<lparr>token_success = False, accessToken = None,
            token_error = Some (messageOr ''Unknown error'' err)\<rparr>,
           st\<lparr>config := store'\<rparr>)
      | (Inr tok, store', reqs) \<Rightarrow>
          (\<lparr>token_success = truthy tok, accessToken = tok, token_error = None\<rparr>,
           st\<lparr>config := store'\<rparr>))"

section \<open>API key configuration (handlers/config-handlers, lib/config)\<close>

text \<open>
  The handler \<open>config:set-api-key\<close> is in the sources, in the second module of the file
  \<open>src/main/handlers/oauth-handlers.ts\<close>; the functions of lib/config that it calls are
  not.
\<close>

datatype key_source = Env | Local

text \<open>The status record; its \<open>lastFour\<close> member is not modelled.\<close>

record ApiKeyStatus =
  configured :: bool
  source :: "key_source option"

text \<open>
  Modelled from the spec: \<open>setApiKey\<close> of lib/config, which is not among the sources. It
  stores the key under \<open>apiKey\<close> of the persisted document, or removes it for \<open>null\<close>.
\<close>

definition setApiKey :: "env \<Rightarrow> string option \<Rightarrow> AppConfig \<Rightarrow> thrown + AppConfig" where
  "setApiKey e key store = saveConfig e ((loadConfig store)\<lparr>apiKey := key\<rparr>) store"

text \<open>
  Modelled from the spec: \<open>getApiKeyStatus\<close> of lib/config, which is not among the sources.
  The environment layer is consulted first and the persisted layer is the fallback: a key
  in \<open>ANTHROPIC_API_KEY\<close> always wins and is reported as such, whatever is stored.
\<close>

definition getApiKeyStatus :: "env \<Rightarrow> AppConfig \<Rightarrow> ApiKeyStatus" where
  "getApiKeyStatus e store =
     (if ANTHROPIC_API_KEY e \<noteq> None then \<lparr>configured = True, source = Some Env\<rparr>
      else if apiKey (loadConfig store) \<noteq> None then \<lparr>configured = True, source = Some Local\<rparr>
      else \<lparr>configured = False, source = None\<rparr>)"

text \<open>\<open>apiKey?.trim() || null\<close>\<close>

definition normalizeKey :: "string option \<Rightarrow> string option" where
  "normalizeKey key =
     (case key of None \<Rightarrow> None | Some k \<Rightarrow> if trim k = [] then None else Some (trim k))"

text \<open>
  The handler of \<open>config:set-api-key\<close>: it answers \<open>success: true\<close> with the status, or
  rejects with what \<open>setApiKey\<close> threw.
\<close>

definition config_set_api_key ::
  "env \<Rightarrow> string option \<Rightarrow> main_state \<Rightarrow> (thrown + bool \<times> ApiKeyStatus) \<times> main_state" where
  "config_set_api_key e key st =
     (let normalized = normalizeKey key
      in case setApiKey e normalized (config st) of
           Inl err \<Rightarrow> (Inl err, st)
         | Inr store' \<Rightarrow> (Inr (True, getApiKeyStatus e store'), st\<lparr>config := store'\<rparr>))"

definition config_get_api_key_status :: "env \<Rightarrow> main_state \<Rightarrow> ApiKeyStatus" where
  "config_get_api_key_status e st = getApiKeyStatus e (config st)"

section \<open>The chat page (renderer/pages/Chat)\<close>

text \<open>
  The component \<open>Chat\<close>; in the sources it is the first module of the file
  \<open>unnamed/part_002\<close>.
\<close>

subsection \<open>Data\<close>

text \<open>
  A browser \<open>File\<close>: its name, size and type, and what reading it does: \<open>arrayBuffer()\<close>
  and the \<open>FileReader\<close> resolve (\<open>Inr\<close>) or reject (\<open>Inl\<close>), and so does
  \<open>URL.createObjectURL\<close>.
\<close>

record File =
  file_name :: string
  file_size :: int
  file_type :: string
  arrayBuffer :: "thrown + string"
  readAsDataURL :: "thrown + string"
  createObjectURL :: "thrown + string"

record PendingAttachment =
  pa_id :: string
  pa_file :: File
  pa_previewUrl :: "string option"
  pa_previewIsBlobUrl :: bool
  pa_isImage :: bool

record MessageAttachment =
  ma_id :: string
  ma_name :: string
  ma_size :: int
  ma_mimeType :: string
  ma_previewUrl :: "string option"
  ma_isImage :: bool
  ma_savedPath :: "string option"
  ma_relativePath :: "string option"

datatype role = User | Assistant

record Message =
  msg_id :: string
  msg_role :: role
  msg_content :: string
  msg_timestamp :: int
  msg_attachments :: "MessageAttachment list option"

record PersistedAttachment =
  p_id :: string
  p_name :: string
  p_size :: int
  p_mimeType :: string
  p_isImage :: bool
  p_savedPath :: "string option"
  p_relativePath :: "string option"

record PersistedMessage =
  pm_id :: string
  pm_role :: role
  pm_content :: string
  pm_timestamp :: string
  pm_attachments :: "PersistedAttachment list option"

record SerializedAttachmentPayload =
  sp_name :: string
  sp_mimeType :: string
  sp_size :: int
  sp_data :: string

record SendMessagePayload =
  payload_text :: string
  payload_attachments :: "SerializedAttachmentPayload list option"

record SavedAttachmentInfo =
  sv_name :: string
  sv_mimeType :: string
  sv_size :: int
  sv_savedPath :: string
  sv_relativePath :: string

record SendMessageResponse =
  send_success :: bool
  send_error :: "string option"
  send_attachments :: "SavedAttachmentInfo list option"

text \<open>
  The calls to the conversation store: \<open>update(id, undefined, messages, sessionId)\<close> and
  \<open>create(messages, sessionId)\<close>.
\<close>

datatype store_call =
  ConversationUpdate string "PersistedMessage list" "string option"
| ConversationCreate "PersistedMessage list" "string option"

text \<open>The closure of a scheduled save: its deadline and the state it captured.\<close>

record saved_closure =
  deadline :: int
  saved_messages :: "Message list"
  saved_conversationId :: "string option"
  saved_sessionId :: "string option"

text \<open>
  What the page consults outside itself: the clock (the \<open>k\<close>-th reading within one
  handler), the IPC call \<open>chat.sendMessage\<close>, \<open>crypto.randomUUID\<close> (the \<open>k\<close>-th
  identifier of one selection), \<open>Date.prototype.toISOString\<close>, the conversation store
  (for \<open>create\<close>: the \<open>success\<close> flag and the identifier of the conversation, if any), and
  the constant \<open>MAX_ATTACHMENT_BYTES\<close> of shared/constants, which is not among the sources.
\<close>

record renderer =
  clock :: "nat \<Rightarrow> int"
  sendMessage :: "SendMessagePayload \<Rightarrow> thrown + SendMessageResponse"
  randomUUID :: "nat \<Rightarrow> string"
  toISOString :: "int \<Rightarrow> string"
  conversationStore :: "store_call \<Rightarrow> thrown + bool \<times> string option"
  MAX_ATTACHMENT_BYTES :: int

text \<open>
  The state of the component, its two refs that matter to saving, the pending timers of
  the event loop with the next free handle, whether the last run of the auto-save effect
  returned a cleanup, and the calls made to the conversation store so far.
\<close>

record chat =
  inputValue :: string
  currentConversationId :: "string option"
  currentSessionId :: "string option"
  pendingAttachments :: "PendingAttachment list"
  attachmentError :: "string option"
  chatWorkspaceDir :: "string option"
  messages :: "Message list"
  isLoading :: bool
  isInitialLoadRef :: bool
  saveTimeoutRef :: "nat option"
  timers :: "(nat \<times> saved_closure) list"
  nextTimer :: nat
  cleanupRegistered :: bool
  writes :: "store_call list"

subsection \<open>Attachments\<close>

text \<open>
  Each handler below is one step: it gives the state after the handler's updates, with
  the answers of the outside world taken from the \<open>renderer\<close> record or from the file.
  Releasing preview URLs (\<open>URL.revokeObjectURL\<close>) changes nothing in this state and is
  left out.
\<close>

definition MAX_ATTACHMENT_SIZE_MB :: "renderer \<Rightarrow> int" where
  "MAX_ATTACHMENT_SIZE_MB w = MAX_ATTACHMENT_BYTES w div (1024 * 1024)"

definition WORKSPACE_FALLBACK_LABEL :: string where
  "WORKSPACE_FALLBACK_LABEL = ''the configured claude-agent workspace directory''"

definition IMAGE_FILE_EXTENSIONS :: "string list" where
  "IMAGE_FILE_EXTENSIONS =
     [''png'', ''apng'', ''avif'', ''gif'', ''jpg'', ''jpeg'', ''jfif'', ''pjpeg'', ''pjp'',
      ''svg'', ''webp'', ''bmp'', ''ico'', ''cur'', ''heic'', ''heif'', ''tif'', ''tiff'']"

definition toLowerChar :: "char \<Rightarrow> char" where
  "toLowerChar c =
     (let n = (of_char c :: nat)
      in if (65 \<le> n \<and> n \<le> 90) \<or> (192 \<le> n \<and> n \<le> 222 \<and> n \<noteq> 215) then char_of (n + 32)
         else c)"

definition toLowerCase :: "string \<Rightarrow> string" where
  "toLowerCase s = map toLowerChar s"

definition isLikelyImageFile :: "File \<Rightarrow> bool" where
  "isLikelyImageFile file =
     (if take 6 (file_type file) = ''image/'' then True
      else (let extension = toLowerCase (last (split_on CHR ''.'' (file_name file)))
            in extension \<in> set IMAGE_FILE_EXTENSIONS))"

text \<open>\<open>createImagePreview\<close>: the URL and whether it is a blob URL, or \<open>null\<close>.\<close>

definition createImagePreview :: "File \<Rightarrow> (string \<times> bool) option" where
  "createImagePreview file =
     (case readAsDataURL file of
        Inr dataUrl \<Rightarrow> if dataUrl \<noteq> [] then Some (dataUrl, False) else None
      | Inl err \<Rightarrow>
          (case createObjectURL file of
             Inr objectUrl \<Rightarrow> Some (objectUrl, True)
           | Inl err' \<Rightarrow> None))"

definition rejectionMessage :: "renderer \<Rightarrow> string option \<Rightarrow> File \<Rightarrow> string" where
  "rejectionMessage w dir file =
     (let workspaceLabel = (case dir of None \<Rightarrow> WORKSPACE_FALLBACK_LABEL | Some d \<Rightarrow> d)
      in [CHR 0x22] @ file_name file @ [CHR 0x22] @ '' is larger than ''
         @ toString (MAX_ATTACHMENT_SIZE_MB w) @ '' MB. ''
         @ ''Please drop it directly into the Claude Agent workspace at '' @ workspaceLabel
         @ ''.'')"

definition acceptFile :: "renderer \<Rightarrow> nat \<Rightarrow> File \<Rightarrow> PendingAttachment" where
  "acceptFile w k file =
     (let isImage = isLikelyImageFile file;
          preview = (if isImage then createImagePreview file else None)
      in case preview of
           Some (url, isBlob) \<Rightarrow>
             if url \<noteq> [] then
               \<lparr>pa_id = randomUUID w k, pa_file = file, pa_previewUrl = Some url,
                pa_previewIsBlobUrl = isBlob, pa_isImage = isImage\<rparr>
             else
               \<lparr>pa_id = randomUUID w k, pa_file = file, pa_previewUrl = None,
                pa_previewIsBlobUrl = False, pa_isImage = isImage\<rparr>
         | None \<Rightarrow>
             \<lparr>pa_id = randomUUID w k, pa_file = file, pa_previewUrl = None,
              pa_previewIsBlobUrl = False, pa_isImage = isImage\<rparr>)"

text \<open>A file above the size limit.\<close>

definition oversized :: "renderer \<Rightarrow> File \<Rightarrow> bool" where
  "oversized w file = (file_size file > MAX_ATTACHMENT_BYTES w)"

text \<open>Whether a string occurs in another.\<close>

fun occursIn :: "string \<Rightarrow> string \<Rightarrow> bool" where
  "occursIn needle [] = (needle = [])"
| "occursIn needle (c # cs) = (take (length needle) (c # cs) = needle \<or> occursIn needle cs)"

text \<open>
  The loop of \<open>processFiles\<close> over the selection, with the accepted attachments and the
  rejection message so far.
\<close>

fun processFiles ::
  "renderer \<Rightarrow> string option \<Rightarrow> File list \<Rightarrow> PendingAttachment list \<Rightarrow> string option
   \<Rightarrow> PendingAttachment list \<times> string option" where
  "processFiles w dir [] accepted rejection = (accepted, rejection)"
| "processFiles w dir (file # files) accepted rejection =
     (if file_size file > MAX_ATTACHMENT_BYTES w then
        processFiles w dir files accepted (Some (rejectionMessage w dir file))
      else
        processFiles w dir files (accepted @ [acceptFile w (length accepted) file]) rejection)"

definition handleFilesSelected :: "renderer \<Rightarrow> File list \<Rightarrow> chat \<Rightarrow> chat" where
  "handleFilesSelected w files st =
     (if files = [] then st
      else
        (case processFiles w (chatWorkspaceDir st) files [] None of
           (accepted, rejection) \<Rightarrow>
             (let st1 = (if accepted \<noteq> []
                         then st\<lparr>pendingAttachments := pendingAttachments st @ accepted\<rparr>
                         else st)
              in if truthy rejection then st1\<lparr>attachmentError := rejection\<rparr>
                 else if accepted \<noteq> [] then st1\<lparr>attachmentError := None\<rparr>
                 else st1)))"

subsection \<open>Submitting a turn\<close>

definition toMessageAttachment :: "PendingAttachment \<Rightarrow> MessageAttachment" where
  "toMessageAttachment attachment =
     \<lparr>ma_id = pa_id attachment,
      ma_name = file_name (pa_file attachment),
      ma_size = file_size (pa_file attachment),
      ma_mimeType = (if file_type (pa_file attachment) = [] then ''application/octet-stream''
                     else file_type (pa_file attachment)),
      ma_previewUrl = (if pa_previewIsBlobUrl attachment then None else pa_previewUrl attachment),
      ma_isImage = pa_isImage attachment,
      ma_savedPath = None,
      ma_relativePath = None\<rparr>"

text \<open>
  \<open>Promise.all\<close> over the attachments' \<open>arrayBuffer()\<close>: all payloads, or the rejection of
  the first attachment that cannot be read.
\<close>

fun serializeAttachments ::
  "PendingAttachment list \<Rightarrow> thrown + SerializedAttachmentPayload list" where
  "serializeAttachments [] = Inr []"
| "serializeAttachments (attachment # rest) =
     (case arrayBuffer (pa_file attachment) of
        Inl err \<Rightarrow> Inl err
      | Inr bytes \<Rightarrow>
          (case serializeAttachments rest of
             Inl err \<Rightarrow> Inl err
           | Inr payloads \<Rightarrow>
               Inr (\<lparr>sp_name = file_name (pa_file attachment),
                     sp_mimeType = (if file_type (pa_file attachment) = []
                                    then ''application/octet-stream''
                                    else file_type (pa_file attachment)),
                     sp_size = file_size (pa_file attachment),
                     sp_data = bytes\<rparr> # payloads)))"

text \<open>The synthetic assistant message of a failed send; it reads the clock twice.\<close>

definition errorMessage :: "renderer \<Rightarrow> string \<Rightarrow> Message" where
  "errorMessage w body =
     \<lparr>msg_id = toString (clock w 2 + 1), msg_role = Assistant, msg_content = body,
      msg_timestamp = clock w 3, msg_attachments = None\<rparr>"

definition withSavedPath :: "SavedAttachmentInfo list \<Rightarrow> nat \<times> MessageAttachment \<Rightarrow> MessageAttachment" where
  "withSavedPath saved p =
     (case p of (index, attachment) \<Rightarrow>
        if index < length saved then
          attachment\<lparr>ma_savedPath := Some (sv_savedPath (saved ! index)),
                     ma_relativePath := Some (sv_relativePath (saved ! index))\<rparr>
        else attachment)"

definition updateSavedPaths :: "string \<Rightarrow> SavedAttachmentInfo list \<Rightarrow> Message \<Rightarrow> Message" where
  "updateSavedPaths userMessageId saved msg =
     (case msg_attachments msg of
        None \<Rightarrow> msg
      | Some atts \<Rightarrow>
          if msg_id msg \<noteq> userMessageId \<or> atts = [] then msg
          else msg\<lparr>msg_attachments := Some (map (withSavedPath saved) (enumerate 0 atts))\<rparr>)"

text \<open>
  \<open>handleSendMessage\<close>: the state after the handler's updates, and the payloads it passed
  to \<open>chat.sendMessage\<close>.
\<close>

definition handleSendMessage :: "renderer \<Rightarrow> chat \<Rightarrow> chat \<times> SendMessagePayload list" where
  "handleSendMessage w st =
     (let trimmedMessage = trim (inputValue st);
          hasSendableContent = (trimmedMessage \<noteq> [] \<or> pendingAttachments st \<noteq> [])
      in if \<not> hasSendableContent \<or> isLoading st then (st, [])
         else
           (let attachmentsToSend = pendingAttachments st;
                st0 = (if attachmentsToSend \<noteq> [] then st\<lparr>pendingAttachments := []\<rparr> else st);
                messageAttachments = map toMessageAttachment attachmentsToSend;
                userMessage =
                  \<lparr>msg_id = toString (clock w 0), msg_role = User,
                   msg_content = trimmedMessage, msg_timestamp = clock w 1,
                   msg_attachments = (if messageAttachments \<noteq> [] then Some messageAttachments
                                      else None)\<rparr>;
                st1 = st0\<lparr>attachmentError := None, messages := messages st0 @ [userMessage],
                          inputValue := [], isLoading := True\<rparr>
            in case serializeAttachments attachmentsToSend of
                 Inl err \<Rightarrow>
                   (st1\<lparr>messages := messages st1
                           @ [errorMessage w (''Error preparing attachments: ''
                                              @ messageOr ''Unknown error occurred'' err)],
                        isLoading := False\<rparr>, [])
               | Inr serializedAttachments \<Rightarrow>
                   (let payload =
                          \<lparr>payload_text = trimmedMessage,
                           payload_attachments = (if serializedAttachments \<noteq> []
                                                  then Some serializedAttachments else None)\<rparr>
                    in case sendMessage w payload of
                         Inl err \<Rightarrow>
                           (st1\<lparr>messages := messages st1
                                   @ [errorMessage w (''Error: ''
                                                      @ messageOr ''Unknown error occurred'' err)],
                                isLoading := False\<rparr>, [payload])
                       | Inr response \<Rightarrow>
                           if \<not> send_success response \<and> truthy (send_error response) then
                             (st1\<lparr>messages := messages st1
                                     @ [errorMessage w (''Error: '' @ the (send_error response))],
                                  isLoading := False\<rparr>, [payload])
                           else
                             (case send_attachments response of
                                Some (s # ss) \<Rightarrow>
                                  (st1\<lparr>messages := map (updateSavedPaths (msg_id userMessage) (s # ss))
                                                       (messages st1)\<rparr>, [payload])
                              | _ \<Rightarrow> (st1, [payload])))))"

subsection \<open>Debounced auto-save\<close>

definition toPersistedAttachment :: "MessageAttachment \<Rightarrow> PersistedAttachment" where
  "toPersistedAttachment a =
     \<lparr>p_id = ma_id a, p_name = ma_name a, p_size = ma_size a, p_mimeType = ma_mimeType a,
      p_isImage = ma_isImage a, p_savedPath = ma_savedPath a,
      p_relativePath = ma_relativePath a\<rparr>"

definition serializeMessagesForStorage :: "renderer \<Rightarrow> Message list \<Rightarrow> PersistedMessage list" where
  "serializeMessagesForStorage w msgs =
     map (\<lambda>msg. \<lparr>pm_id = msg_id msg, pm_role = msg_role msg, pm_content = msg_content msg,
                  pm_timestamp = toISOString w (msg_timestamp msg),
                  pm_attachments = map_option (map toPersistedAttachment) (msg_attachments msg)\<rparr>)
         msgs"

text \<open>
  \<open>if (saveTimeoutRef.current) clearTimeout(saveTimeoutRef.current)\<close>: a timer handle
  is never falsy, and clearing a timer that has run or was cleared does nothing.
\<close>

definition clearSaveTimeout :: "chat \<Rightarrow> chat" where
  "clearSaveTimeout st =
     (case saveTimeoutRef st of
        None \<Rightarrow> st
      | Some h \<Rightarrow> st\<lparr>timers := filter (\<lambda>p. fst p \<noteq> h) (timers st)\<rparr>)"

text \<open>
  One run of the auto-save effect at time \<open>t\<close>, after a render in which \<open>messages\<close>,
  \<open>currentConversationId\<close> or \<open>currentSessionId\<close> changed: first the cleanup that the
  previous run returned, if it returned one, then the body.
\<close>

definition autoSaveEffect :: "int \<Rightarrow> chat \<Rightarrow> chat" where
  "autoSaveEffect t st =
     (let st0 = (if cleanupRegistered st then clearSaveTimeout st else st)
      in if isInitialLoadRef st0 then st0\<lparr>isInitialLoadRef := False, cleanupRegistered := False\<rparr>
         else if messages st0 = [] then st0\<lparr>cleanupRegistered := False\<rparr>
         else
           (let st1 = clearSaveTimeout st0;
                h = nextTimer st1;
                closure = \<lparr>deadline = t + 2000, saved_messages = messages st1,
                           saved_conversationId = currentConversationId st1,
                           saved_sessionId = currentSessionId st1\<rparr>
            in st1\<lparr>timers := timers st1 @ [(h, closure)], saveTimeoutRef := Some h,
                    nextTimer := h + 1, cleanupRegistered := True\<rparr>))"

text \<open>
  State setters: React renders again, and runs the effect, only when the value changed.
  Every message list that is set is a new array, and so a new value.
\<close>

definition setMessages :: "int \<Rightarrow> Message list \<Rightarrow> chat \<Rightarrow> chat" where
  "setMessages t msgs st = autoSaveEffect t (st\<lparr>messages := msgs\<rparr>)"

definition setCurrentConversationId :: "int \<Rightarrow> string option \<Rightarrow> chat \<Rightarrow> chat" where
  "setCurrentConversationId t v st =
     (if currentConversationId st = v then st
      else autoSaveEffect t (st\<lparr>currentConversationId := v\<rparr>))"

definition setCurrentSessionId :: "int \<Rightarrow> string option \<Rightarrow> chat \<Rightarrow> chat" where
  "setCurrentSessionId t v st =
     (if currentSessionId st = v then st
      else autoSaveEffect t (st\<lparr>currentSessionId := v\<rparr>))"

text \<open>The callback of the save timer, run at time \<open>t\<close> with the state its closure captured.\<close>

definition saveCallback :: "renderer \<Rightarrow> int \<Rightarrow> saved_closure \<Rightarrow> chat \<Rightarrow> chat" where
  "saveCallback w t c st =
     (let messagesToSave = serializeMessagesForStorage w (saved_messages c)
      in if truthy (saved_conversationId c) then
           st\<lparr>writes := writes st
                 @ [ConversationUpdate (the (saved_conversationId c)) messagesToSave
                      (saved_sessionId c)]\<rparr>
         else
           (let call = ConversationCreate messagesToSave (saved_sessionId c);
                st1 = st\<lparr>writes := writes st @ [call]\<rparr>
            in case conversationStore w call of
                 Inl err \<Rightarrow> st1
               | Inr (success, conversation) \<Rightarrow>
                   if success \<and> conversation \<noteq> None then setCurrentConversationId t conversation st1
                   else st1))"

text \<open>The event loop at time \<open>t\<close> runs the oldest timer that is due, if there is one.\<close>

definition tick :: "renderer \<Rightarrow> int \<Rightarrow> chat \<Rightarrow> chat" where
  "tick w t st =
     (case find (\<lambda>p. deadline (snd p) \<le> t) (timers st) of
        None \<Rightarrow> st
      | Some (h, c) \<Rightarrow> saveCallback w t c (st\<lparr>timers := filter (\<lambda>p. fst p \<noteq> h) (timers st)\<rparr>))"

datatype event = Mutate int "Message list" | Tick int

fun step :: "renderer \<Rightarrow> event \<Rightarrow> chat \<Rightarrow> chat" where
  "step w (Mutate t msgs) st = setMessages t msgs st"
| "step w (Tick t) st = tick w t st"

fun run :: "renderer \<Rightarrow> event list \<Rightarrow> chat \<Rightarrow> chat" where
  "run w [] st = st"
| "run w (ev # evs) st = run w evs (step w ev st)"

text \<open>
  The events after a mutation at time \<open>t0\<close> stay within the debounce window: every later
  mutation comes less than two seconds after the one before it, and the event loop is not
  asked for a due timer at or after a deadline.
\<close>

fun inWindow :: "int \<Rightarrow> event list \<Rightarrow> bool" where
  "inWindow t0 [] = True"
| "inWindow t0 (Mutate t msgs # evs) = (t0 \<le> t \<and> t < t0 + 2000 \<and> inWindow t evs)"
| "inWindow t0 (Tick t # evs) = (t < t0 + 2000 \<and> inWindow t0 evs)"

text \<open>The time and the message list of the last mutation.\<close>

fun lastMutation :: "int \<times> Message list \<Rightarrow> event list \<Rightarrow> int \<times> Message list" where
  "lastMutation m [] = m"
| "lastMutation m (Mutate t msgs # evs) = lastMutation (t, msgs) evs"
| "lastMutation m (Tick t # evs) = lastMutation m evs"

text \<open>The store call that saves the messages for a conversation and session.\<close>

definition saveCall ::
  "renderer \<Rightarrow> string option \<Rightarrow> string option \<Rightarrow> Message list \<Rightarrow> store_call" where
  "saveCall w conversationId sessionId msgs =
     (if truthy conversationId
      then ConversationUpdate (the conversationId) (serializeMessagesForStorage w msgs) sessionId
      else ConversationCreate (serializeMessagesForStorage w msgs) sessionId)"

text \<open>
  At most one save timer is pending, and it is the one that \<open>saveTimeoutRef\<close> holds and
  that the cleanup of the last effect run will cancel.
\<close>

definition atMostOwnTimer :: "chat \<Rightarrow> bool" where
  "atMostOwnTimer st =
     (case timers st of
        [] \<Rightarrow> True
      | [p] \<Rightarrow> saveTimeoutRef st = Some (fst p) \<and> cleanupRegistered st
      | _ \<Rightarrow> False)"

text \<open>
  After a mutation at time \<open>t\<close> to the messages \<open>m\<close>, with nothing written since: no
  timer is pending when \<open>m\<close> is empty, and otherwise exactly one is, due two seconds
  after \<open>t\<close>, with \<open>m\<close> and the conversation and session identifiers in its closure.
\<close>

definition debounced ::
  "store_call list \<Rightarrow> string option \<Rightarrow> string option \<Rightarrow> int \<Rightarrow> Message list \<Rightarrow> chat \<Rightarrow> bool" where
  "debounced W C S t m st =
     (writes st = W \<and> currentConversationId st = C \<and> currentSessionId st = S
      \<and> \<not> isInitialLoadRef st \<and> messages st = m
      \<and> (if m = [] then timers st = []
          else timers st = [(the (saveTimeoutRef st),
                             \<lparr>deadline = t + 2000, saved_messages = m,
                              saved_conversationId = C, saved_sessionId = S\<rparr>)]
               \<and> saveTimeoutRef st \<noteq> None \<and> cleanupRegistered st))"

section \<open>Concrete inputs\<close>

definition staleTokens :: OAuthTokens where
  "staleTokens = \<lparr>refresh = ''stale-refresh'', access = ''stale-access'', expires = 1000000\<rparr>"

definition emptyStore :: AppConfig where
  "emptyStore = \<lparr>workspaceDir = None, debugMode = None, apiKey = None,
     anthropicBaseUrl = None, oauthTokens = None\<rparr>"

definition staleStore :: AppConfig where
  "staleStore = emptyStore\<lparr>oauthTokens := Some staleTokens\<rparr>"

definition samplePKCE :: PKCEChallenge where
  "samplePKCE = \<lparr>challenge = ''ch-A_1'', verifier = ''ver-B_2''\<rparr>"

text \<open>An environment at clock \<open>t\<close> whose endpoints reject every request.\<close>

definition rejectingEnv :: "int \<Rightarrow> env" where
  "rejectingEnv t = \<lparr>now = t, now_resp = t + 100,
     token_endpoint = (\<lambda>r. Response False ''Unauthorized'' None),
     create_key_endpoint = (\<lambda>a. Response False ''Unauthorized'' None),
     generatePKCE = Inr samplePKCE, openExternal = (\<lambda>u. None), disk = None,
     ANTHROPIC_API_KEY = None\<rparr>"

definition freshJson :: token_json where
  "freshJson = \<lparr>refresh_token = ''new-refresh'', access_token = ''new-access'', expires_in = 3600\<rparr>"

text \<open>An environment at clock \<open>t\<close> whose endpoints grant every request.\<close>

definition grantingEnv :: "int \<Rightarrow> env" where
  "grantingEnv t = \<lparr>now = t, now_resp = t + 100,
     token_endpoint = (\<lambda>r. Response True ''OK'' (Some freshJson)),
     create_key_endpoint = (\<lambda>a. Response True ''OK'' (Some ''sk-ant-new'')),
     generatePKCE = Inr samplePKCE, openExternal = (\<lambda>u. None), disk = None,
     ANTHROPIC_API_KEY = None\<rparr>"

text \<open>
  Environments in which the code exchange is granted, but then the creation of an API key
  is refused, or writing the configuration file throws.
\<close>

definition keyRefusingEnv :: env where
  "keyRefusingEnv =
     (grantingEnv 0)\<lparr>create_key_endpoint := (\<lambda>a. Response False ''Forbidden'' None)\<rparr>"

definition diskFailingEnv :: env where
  "diskFailingEnv = (grantingEnv 0)\<lparr>disk := Some (Error ''EACCES'')\<rparr>"

definition staleState :: main_state where
  "staleState = \<lparr>currentPKCEVerifier = None, config = staleStore\<rparr>"

definition flowState :: main_state where
  "flowState = \<lparr>currentPKCEVerifier = Some ''ver-B_2'', config = emptyStore\<rparr>"

text \<open>A renderer world in which every call succeeds; the limit is 32 MiB.\<close>

definition sampleRenderer :: renderer where
  "sampleRenderer = \<lparr>clock = (\<lambda>k. 5000 + int k),
     sendMessage = (\<lambda>p. Inr \<lparr>send_success = True, send_error = None, send_attachments = None\<rparr>),
     randomUUID = (\<lambda>k. ''uuid-'' @ toString (int k)),
     toISOString = toString,
     conversationStore = (\<lambda>c. Inr (True, Some ''conv-1'')),
     MAX_ATTACHMENT_BYTES = 32 * 1024 * 1024\<rparr>"

definition sampleFile :: "string \<Rightarrow> int \<Rightarrow> File" where
  "sampleFile name sz = \<lparr>file_name = name, file_size = sz, file_type = ''application/pdf'',
     arrayBuffer = Inr ''%PDF'', readAsDataURL = Inr ''data:application/pdf;base64,JVBERg=='',
     createObjectURL = Inr ''blob:1''\<rparr>"

definition unreadableFile :: File where
  "unreadableFile = (sampleFile ''gone.pdf'' 10)\<lparr>arrayBuffer := Inl (Error ''NotReadableError'')\<rparr>"

text \<open>The component as first rendered, and after the effects of the mount have run.\<close>

definition initialChat :: chat where
  "initialChat = \<lparr>inputValue = [], currentConversationId = None, currentSessionId = None,
     pendingAttachments = [], attachmentError = None, chatWorkspaceDir = Some ''/home/u/claude-agent'',
     messages = [], isLoading = False, isInitialLoadRef = True, saveTimeoutRef = None,
     timers = [], nextTimer = 1, cleanupRegistered = False, writes = []\<rparr>"

definition mountedChat :: chat where
  "mountedChat = autoSaveEffect 0 initialChat"

definition helloMessage :: Message where
  "helloMessage = \<lparr>msg_id = ''5000'', msg_role = User, msg_content = ''hello'',
     msg_timestamp = 5001, msg_attachments = None\<rparr>"

definition replyMessage :: Message where
  "replyMessage = \<lparr>msg_id = ''5500'', msg_role = Assistant, msg_content = ''hi'',
     msg_timestamp = 5500, msg_attachments = None\<rparr>"

text \<open>An environment in which \<open>ANTHROPIC_API_KEY\<close> is set.\<close>

definition envKeyEnv :: env where
  "envKeyEnv = (rejectingEnv 0)\<lparr>ANTHROPIC_API_KEY := Some ''sk-ant-env''\<rparr>"

text \<open>Two pending attachments; the bytes of the second cannot be read.\<close>

definition notePending :: PendingAttachment where
  "notePending = \<lparr>pa_id = ''uuid-0'', pa_file = sampleFile ''note.pdf'' 10,
     pa_previewUrl = None, pa_previewIsBlobUrl = False, pa_isImage = False\<rparr>"

definition gonePending :: PendingAttachment where
  "gonePending = \<lparr>pa_id = ''uuid-1'', pa_file = unreadableFile,
     pa_previewUrl = None, pa_previewIsBlobUrl = False, pa_isImage = False\<rparr>"

text \<open>A draft with text and an attachment that cannot be read, and one that can be sent.\<close>

definition unreadableDraft :: chat where
  "unreadableDraft = mountedChat\<lparr>inputValue := ''hi'', pendingAttachments := [gonePending]\<rparr>"

definition readableDraft :: chat where
  "readableDraft = mountedChat\<lparr>inputValue := '' hi '', pendingAttachments := [notePending]\<rparr>"

definition sampleEvents :: "event list" where
  "sampleEvents = [Tick 1000, Mutate 1500 [helloMessage, replyMessage], Tick 3000]"

definition blankDraft :: chat where
  "blankDraft = mountedChat\<lparr>inputValue := ''   ''\<rparr>"

section \<open>Properties of the OAuth library\<close>

lemma refreshAccessToken_eq:
  "refreshAccessToken e r =
     (tokensOfResponse e (token_endpoint e (RefreshRequest r)), [RefreshRequest r])"
  by (simp add: refreshAccessToken_def Let_def)

lemma exchangeCodeForTokens_eq:
  "fst (exchangeCodeForTokens e c v) = tokensOfResponse e (token_endpoint e (exchangeRequest c v))"
  by (simp add: exchangeCodeForTokens_def Let_def)

text \<open>A refresh fails, in the sense of \<open>refreshFails\<close>, exactly when \<open>refreshAccessToken\<close>
  returns \<open>null\<close>.\<close>

lemma refreshFails_iff: "refreshFails e t = (fst (refreshAccessToken e (refresh t)) = None)"
  by (simp add: refreshFails_def refreshAccessToken_eq tokensOfResponse_def
      split: fetch_result.splits option.splits)

lemma getValidAccessToken_failed:
  assumes "getOAuthTokens store = Some t" and "isTokenExpired e t" and "refreshFails e t"
  shows "getValidAccessToken e store = (Inr None, store, [RefreshRequest (refresh t)])"
  using assms
  by (simp add: getValidAccessToken_def refreshFails_iff refreshAccessToken_eq)

lemma getValidAccessToken_requests:
  assumes "getOAuthTokens store = Some t"
  shows "snd (snd (getValidAccessToken e store)) =
           (if isTokenExpired e t then [RefreshRequest (refresh t)] else [])"
  using assms
  by (simp add: getValidAccessToken_def refreshAccessToken_eq split: option.splits sum.splits)

lemma staleStore_tokens: "getOAuthTokens staleStore = Some staleTokens"
  by (simp add: getOAuthTokens_def loadConfig_def staleStore_def)

lemma emptyStore_tokens: "getOAuthTokens emptyStore = None"
  by (simp add: getOAuthTokens_def loadConfig_def emptyStore_def)

lemma staleTokens_fields:
  "access staleTokens = ''stale-access''" "refresh staleTokens = ''stale-refresh''"
  "expires staleTokens = 1000000"
  by (simp_all add: staleTokens_def)

lemma rejectingEnv_fails: "refreshFails (rejectingEnv t) tokens"
  by (simp add: refreshFails_def rejectingEnv_def)

lemma expired_at_800000: "800000 \<le> t \<Longrightarrow> isTokenExpired (rejectingEnv t) staleTokens"
  by (simp add: isTokenExpired_def rejectingEnv_def staleTokens_def)

text \<open>
  C1. When a pair is stored, its expiry is inside the look-ahead window, and the refresh
  fails (the endpoint rejects the request, or the request or the parsing of its answer
  errors), \<open>getValidAccessToken\<close> returns \<open>null\<close> and the configuration store afterwards
  is the store before, so the stored pair (access, refresh, expires) is neither cleared
  nor partially updated; \<open>oauth:get-access-token\<close> then answers \<open>success: false\<close> with no
  token and leaves the state of the main process as it was.
\<close>

theorem getValidAccessToken_failed_refresh_keeps_store:
  assumes "getOAuthTokens store = Some t" and "isTokenExpired e t" and "refreshFails e t"
  shows "fst (getValidAccessToken e store) = Inr None
       \<and> fst (snd (getValidAccessToken e store)) = store
       \<and> getOAuthTokens (fst (snd (getValidAccessToken e store))) = Some t
       \<and> (config st = store \<longrightarrow>
            oauth_get_access_token e st
              = (\<lparr>token_success = False, accessToken = None, token_error = None\<rparr>, st))"
  using assms
  by (simp add: getValidAccessToken_failed oauth_get_access_token_def truthy_def)

theorem getValidAccessToken_failed_refresh_keeps_store_witness:
  "getOAuthTokens staleStore = Some staleTokens
   \<and> isTokenExpired (rejectingEnv 800000) staleTokens
   \<and> refreshFails (rejectingEnv 800000) staleTokens
   \<and> fst (getValidAccessToken (rejectingEnv 800000) staleStore) = Inr None
   \<and> fst (snd (getValidAccessToken (rejectingEnv 800000) staleStore)) = staleStore
   \<and> config staleState = staleStore
   \<and> oauth_get_access_token (rejectingEnv 800000) staleState
        = (\<lparr>token_success = False, accessToken = None, token_error = None\<rparr>, staleState)"
proof -
  have h2: "isTokenExpired (rejectingEnv 800000) staleTokens"
    by (simp add: expired_at_800000)
  have c: "config staleState = staleStore"
    by (simp add: staleState_def)
  from getValidAccessToken_failed_refresh_keeps_store
         [OF staleStore_tokens h2 rejectingEnv_fails, of staleState]
    staleStore_tokens h2 rejectingEnv_fails c
  show ?thesis by simp
qed

text \<open>
  C2, as stated, fails. At clock 0 the stored pair is more than five minutes from its
  expiry and \<open>getValidAccessToken\<close> returns the stored access token. At clock 800000 the
  pair is inside the window, the refresh is rejected, and the call returns \<open>null\<close>,
  leaving the store as it was. The call right after, at clock 800001, does not return the
  stale access token that the first call returned.
\<close>

theorem stale_token_not_returned_after_failed_refresh:
  "fst (getValidAccessToken (rejectingEnv 0) staleStore) = Inr (Some ''stale-access'')
   \<and> refreshFails (rejectingEnv 800000) staleTokens
   \<and> getValidAccessToken (rejectingEnv 800000) staleStore
        = (Inr None, staleStore, [RefreshRequest ''stale-refresh''])
   \<and> fst (getValidAccessToken (rejectingEnv 800001)
              (fst (snd (getValidAccessToken (rejectingEnv 800000) staleStore))))
        \<noteq> fst (getValidAccessToken (rejectingEnv 0) staleStore)"
  by (simp add: getValidAccessToken_def refreshAccessToken_eq tokensOfResponse_def
      isTokenExpired_def getOAuthTokens_def loadConfig_def staleStore_def staleTokens_def
      rejectingEnv_def emptyStore_def refreshFails_def)

text \<open>
  C2, amended. For every stored pair whose refresh attempt fails, the failed call returns
  \<open>null\<close> and the stored pair read by \<open>getOAuthTokens\<close> is the same before and after
  it. A call made afterwards, with the clock not set back, does not return the stale
  access token: it sends a refresh request again, and returns \<open>null\<close> with the store
  still unchanged when that refresh fails too.
\<close>

theorem failed_refresh_store_identical_and_retried:
  assumes "getOAuthTokens store = Some t" and "isTokenExpired e t" and "refreshFails e t"
    and "now e \<le> now e'"
  shows "getValidAccessToken e store = (Inr None, store, [RefreshRequest (refresh t)])
       \<and> getOAuthTokens (fst (snd (getValidAccessToken e store))) = getOAuthTokens store
       \<and> snd (snd (getValidAccessToken e' (fst (snd (getValidAccessToken e store)))))
           = [RefreshRequest (refresh t)]
       \<and> (refreshFails e' t \<longrightarrow>
            getValidAccessToken e' (fst (snd (getValidAccessToken e store)))
              = (Inr None, store, [RefreshRequest (refresh t)]))"
proof -
  have first: "getValidAccessToken e store = (Inr None, store, [RefreshRequest (refresh t)])"
    using assms(1-3) by (rule getValidAccessToken_failed)
  have still: "isTokenExpired e' t"
    using assms(2,4) by (simp add: isTokenExpired_def)
  have again: "snd (snd (getValidAccessToken e' store)) = [RefreshRequest (refresh t)]"
    using assms(1) still by (simp add: getValidAccessToken_requests)
  have fails: "refreshFails e' t \<Longrightarrow>
      getValidAccessToken e' store = (Inr None, store, [RefreshRequest (refresh t)])"
    using assms(1) still by (rule getValidAccessToken_failed)
  from first again fails show ?thesis by simp
qed

theorem failed_refresh_store_identical_and_retried_witness:
  "getOAuthTokens staleStore = Some staleTokens
   \<and> isTokenExpired (rejectingEnv 800000) staleTokens
   \<and> refreshFails (rejectingEnv 800000) staleTokens
   \<and> now (rejectingEnv 800000) \<le> now (rejectingEnv 800001)
   \<and> refreshFails (rejectingEnv 800001) staleTokens
   \<and> getValidAccessToken (rejectingEnv 800001)
        (fst (snd (getValidAccessToken (rejectingEnv 800000) staleStore)))
       = (Inr None, staleStore, [RefreshRequest (refresh staleTokens)])"
proof -
  have h2: "isTokenExpired (rejectingEnv 800000) staleTokens"
    by (simp add: expired_at_800000)
  have h4: "now (rejectingEnv 800000) \<le> now (rejectingEnv 800001)"
    by (simp add: rejectingEnv_def)
  from failed_refresh_store_identical_and_retried
         [OF staleStore_tokens h2 rejectingEnv_fails h4]
    staleStore_tokens h2 h4 rejectingEnv_fails [of 800000 staleTokens]
    rejectingEnv_fails [of 800001 staleTokens]
  show ?thesis by blast
qed

text \<open>
  C7. With no pair stored, \<open>getValidAccessToken\<close> returns \<open>null\<close> and sends nothing. With
  a pair stored, it returns the stored access token, sends nothing and leaves the store
  alone exactly when the stored expiry is at least five minutes after the clock; and it
  sends a refresh request, carrying the stored refresh token, exactly when the stored
  expiry is less than five minutes after the clock.
\<close>

theorem getValidAccessToken_lookahead:
  "(getOAuthTokens store = None \<longrightarrow> getValidAccessToken e store = (Inr None, store, []))
   \<and> (\<forall>t. getOAuthTokens store = Some t \<longrightarrow>
         ((now e + 5 * 60 * 1000 \<le> expires t)
            = (getValidAccessToken e store = (Inr (Some (access t)), store, [])))
       \<and> ((expires t < now e + 5 * 60 * 1000)
            = (snd (snd (getValidAccessToken e store)) = [RefreshRequest (refresh t)])))"
  by (auto simp: getValidAccessToken_def isTokenExpired_def refreshAccessToken_eq
      split: option.splits sum.splits)

theorem getValidAccessToken_lookahead_witness:
  "getOAuthTokens emptyStore = None
   \<and> getValidAccessToken (grantingEnv 0) emptyStore = (Inr None, emptyStore, [])
   \<and> getOAuthTokens staleStore = Some staleTokens
   \<and> now (grantingEnv 700000) + 5 * 60 * 1000 \<le> expires staleTokens
   \<and> getValidAccessToken (grantingEnv 700000) staleStore
        = (Inr (Some ''stale-access''), staleStore, [])
   \<and> expires staleTokens < now (grantingEnv 700001) + 5 * 60 * 1000
   \<and> snd (snd (getValidAccessToken (grantingEnv 700001) staleStore))
        = [RefreshRequest ''stale-refresh'']"
proof -
  have h2: "now (grantingEnv 700000) + 5 * 60 * 1000 \<le> expires staleTokens"
    by (simp add: grantingEnv_def staleTokens_def)
  have h3: "expires staleTokens < now (grantingEnv 700001) + 5 * 60 * 1000"
    by (simp add: grantingEnv_def staleTokens_def)
  from getValidAccessToken_lookahead [of emptyStore "grantingEnv 0"] emptyStore_tokens
  have r0: "getValidAccessToken (grantingEnv 0) emptyStore = (Inr None, emptyStore, [])"
    by blast
  from getValidAccessToken_lookahead [of staleStore "grantingEnv 700000"] staleStore_tokens h2
  have r1: "getValidAccessToken (grantingEnv 700000) staleStore
        = (Inr (Some (access staleTokens)), staleStore, [])"
    by blast
  from getValidAccessToken_lookahead [of staleStore "grantingEnv 700001"] staleStore_tokens h3
  have r2: "snd (snd (getValidAccessToken (grantingEnv 700001) staleStore))
        = [RefreshRequest (refresh staleTokens)]"
    by blast
  from emptyStore_tokens staleStore_tokens h2 h3 r0 r1 r2 show ?thesis
    by (simp only: staleTokens_fields simp_thms)
qed

subsection \<open>The authorization URL\<close>

lemma urlencode_formSafe: "list_all formSafe s \<Longrightarrow> urlencode s = s"
proof (induction s)
  case Nil
  then show ?case by (simp add: urlencode_def)
next
  case (Cons c s)
  have "c \<noteq> CHR '' ''" using Cons.prems
    by (auto simp: formSafe_def isAlnum_def isDigit_def isUpper_def isLower_def)
  with Cons show ?case by (simp add: urlencode_def urlencodeUnit_def Let_def)
qed

lemma urlencode_base64url: "list_all isBase64Url s \<Longrightarrow> urlencode s = s"
  by (rule urlencode_formSafe) (auto simp: list_all_iff isBase64Url_def formSafe_def)

lemma urlencode_consts:
  "urlencode ''code'' = ''code''"
  "urlencode ''true'' = ''true''"
  "urlencode ''client_id'' = ''client_id''"
  "urlencode CLIENT_ID = ''9d1c250a-e61b-44d9-88ed-5944d1962f5e''"
  "urlencode ''response_type'' = ''response_type''"
  "urlencode ''redirect_uri'' = ''redirect_uri''"
  "urlencode REDIRECT_URI = ''https%3A%2F%2Fconsole.anthropic.com%2Foauth%2Fcode%2Fcallback''"
  "urlencode ''scope'' = ''scope''"
  "urlencode SCOPES = ''org%3Acreate_api_key+user%3Aprofile+user%3Ainference''"
  "urlencode ''code_challenge'' = ''code_challenge''"
  "urlencode ''code_challenge_method'' = ''code_challenge_method''"
  "urlencode ''S256'' = ''S256''"
  "urlencode ''state'' = ''state''"
  by code_simp+

lemma searchParams_set_fresh:
  "k \<notin> set (map fst ps) \<Longrightarrow> searchParams_set k v ps = ps @ [(k, v)]"
  by (simp add: searchParams_set_def)

lemma getAuthorizationUrl_params:
  "getAuthorizationUrl mode pkce =
     url_toString
       (if mode = Max then AUTHORIZATION_ENDPOINT_MAX else AUTHORIZATION_ENDPOINT_CONSOLE)
       [(''code'', ''true''), (''client_id'', CLIENT_ID), (''response_type'', ''code''),
        (''redirect_uri'', REDIRECT_URI), (''scope'', SCOPES),
        (''code_challenge'', challenge pkce), (''code_challenge_method'', ''S256''),
        (''state'', verifier pkce)]"
proof -
  have p1: "searchParams_set ''code'' ''true'' [] = [(''code'', ''true'')]"
    by (simp add: searchParams_set_fresh)
  have p2: "\<And>v. searchParams_set ''client_id'' v [(''code'', ''true'')] =
      [(''code'', ''true''), (''client_id'', v)]"
    by (simp add: searchParams_set_fresh)
  have p3: "\<And>v a b. searchParams_set ''response_type'' v [(''code'', a), (''client_id'', b)] =
      [(''code'', a), (''client_id'', b), (''response_type'', v)]"
    by (simp add: searchParams_set_fresh)
  have p4: "\<And>v a b c. searchParams_set ''redirect_uri'' v
        [(''code'', a), (''client_id'', b), (''response_type'', c)] =
      [(''code'', a), (''client_id'', b), (''response_type'', c), (''redirect_uri'', v)]"
    by (simp add: searchParams_set_fresh)
  have p5: "\<And>v a b c d. searchParams_set ''scope'' v
        [(''code'', a), (''client_id'', b), (''response_type'', c), (''redirect_uri'', d)] =
      [(''code'', a), (''client_id'', b), (''response_type'', c), (''redirect_uri'', d),
       (''scope'', v)]"
    by (simp add: searchParams_set_fresh)
  have p6: "\<And>v a b c d e. searchParams_set ''code_challenge'' v
        [(''code'', a), (''client_id'', b), (''response_type'', c), (''redirect_uri'', d),
         (''scope'', e)] =
      [(''code'', a), (''client_id'', b), (''response_type'', c), (''redirect_uri'', d),
       (''scope'', e), (''code_challenge'', v)]"
    by (simp add: searchParams_set_fresh)
  have p7: "\<And>v a b c d e f. searchParams_set ''code_challenge_method'' v
        [(''code'', a), (''client_id'', b), (''response_type'', c), (''redirect_uri'', d),
         (''scope'', e), (''code_challenge'', f)] =
      [(''code'', a), (''client_id'', b), (''response_type'', c), (''redirect_uri'', d),
       (''scope'', e), (''code_challenge'', f), (''code_challenge_method'', v)]"
    by (simp add: searchParams_set_fresh)
  have p8: "\<And>v a b c d e f g. searchParams_set ''state'' v
        [(''code'', a), (''client_id'', b), (''response_type'', c), (''redirect_uri'', d),
         (''scope'', e), (''code_challenge'', f), (''code_challenge_method'', g)] =
      [(''code'', a), (''client_id'', b), (''response_type'', c), (''redirect_uri'', d),
       (''scope'', e), (''code_challenge'', f), (''code_challenge_method'', g), (''state'', v)]"
    by (simp add: searchParams_set_fresh)
  show ?thesis
    unfolding getAuthorizationUrl_def Let_def p1 p2 p3 p4 p5 p6 p7 p8 ..
qed

text \<open>
  C9. For every PKCE pair as the generator produces it (a verifier and a challenge in the
  base64url alphabet) and for both auth modes, the authorization URL is the endpoint of
  the mode followed by the query below: it carries the challenge with
  \<open>code_challenge_method=S256\<close>, and its last parameter is \<open>state\<close>, whose value is the
  verifier, character for character.
\<close>

theorem getAuthorizationUrl_state_is_verifier:
  assumes "list_all isBase64Url (verifier pkce)" and "list_all isBase64Url (challenge pkce)"
  shows "getAuthorizationUrl mode pkce =
     (if mode = Max then ''https://claude.ai/oauth/authorize''
      else ''https://console.anthropic.com/oauth/authorize'')
     @ ''?code=true&client_id=9d1c250a-e61b-44d9-88ed-5944d1962f5e&response_type=code''
     @ ''&redirect_uri=https%3A%2F%2Fconsole.anthropic.com%2Foauth%2Fcode%2Fcallback''
     @ ''&scope=org%3Acreate_api_key+user%3Aprofile+user%3Ainference''
     @ ''&code_challenge='' @ challenge pkce @ ''&code_challenge_method=S256''
     @ ''&state='' @ verifier pkce"
  using assms
  by (simp add: getAuthorizationUrl_params url_toString_def serializeParams_def urlencode_consts
      urlencode_base64url AUTHORIZATION_ENDPOINT_MAX_def AUTHORIZATION_ENDPOINT_CONSOLE_def)

theorem getAuthorizationUrl_state_is_verifier_witness:
  "list_all isBase64Url (verifier samplePKCE) \<and> list_all isBase64Url (challenge samplePKCE)
   \<and> getAuthorizationUrl Console samplePKCE =
     ''https://console.anthropic.com/oauth/authorize''
     @ ''?code=true&client_id=9d1c250a-e61b-44d9-88ed-5944d1962f5e&response_type=code''
     @ ''&redirect_uri=https%3A%2F%2Fconsole.anthropic.com%2Foauth%2Fcode%2Fcallback''
     @ ''&scope=org%3Acreate_api_key+user%3Aprofile+user%3Ainference''
     @ ''&code_challenge=ch-A_1&code_challenge_method=S256''
     @ ''&state=ver-B_2''"
proof -
  have h1: "list_all isBase64Url (verifier samplePKCE)"
    by (simp add: samplePKCE_def isBase64Url_def isAlnum_def isDigit_def isUpper_def isLower_def)
  have h2: "list_all isBase64Url (challenge samplePKCE)"
    by (simp add: samplePKCE_def isBase64Url_def isAlnum_def isDigit_def isUpper_def isLower_def)
  have f: "verifier samplePKCE = ''ver-B_2''" "challenge samplePKCE = ''ch-A_1''"
    by (simp_all add: samplePKCE_def)
  from getAuthorizationUrl_state_is_verifier [OF h1 h2, of Console] h1 h2
  show ?thesis by (simp add: f)
qed

section \<open>Properties of the OAuth handlers\<close>

lemma flow_exchange_granted:
  "fst (exchangeCodeForTokens (grantingEnv 0) ''abc#xyz'' ''ver-B_2'')
     = Some \<lparr>refresh = ''new-refresh'', access = ''new-access'', expires = 3600100\<rparr>"
  by (simp add: exchangeCodeForTokens_eq tokensOfResponse_def grantingEnv_def freshJson_def)

lemma flow_exchange_rejected:
  "fst (exchangeCodeForTokens (rejectingEnv 0) ''abc#xyz'' ''ver-B_2'') = None"
  by (simp add: exchangeCodeForTokens_eq tokensOfResponse_def rejectingEnv_def)

lemma flow_exchange_keyRefusing:
  "fst (exchangeCodeForTokens keyRefusingEnv ''abc#xyz'' ''ver-B_2'')
     = Some \<lparr>refresh = ''new-refresh'', access = ''new-access'', expires = 3600100\<rparr>"
  by (simp add: exchangeCodeForTokens_eq tokensOfResponse_def keyRefusingEnv_def grantingEnv_def
      freshJson_def)

lemma flow_exchange_diskFailing:
  "fst (exchangeCodeForTokens diskFailingEnv ''abc#xyz'' ''ver-B_2'')
     = Some \<lparr>refresh = ''new-refresh'', access = ''new-access'', expires = 3600100\<rparr>"
  by (simp add: exchangeCodeForTokens_eq tokensOfResponse_def diskFailingEnv_def grantingEnv_def
      freshJson_def)

lemma flow_complete_granted:
  "oauth_complete_login (grantingEnv 0) ''abc#xyz'' False flowState
     = (\<lparr>complete_success = True, complete_mode = Some ModeOAuth, complete_apiKey = None,
         complete_error = None\<rparr>,
        \<lparr>currentPKCEVerifier = None,
         config = emptyStore\<lparr>oauthTokens :=
           Some \<lparr>refresh = ''new-refresh'', access = ''new-access'', expires = 3600100\<rparr>\<rparr>\<rparr>)"
proof -
  have d: "disk (grantingEnv 0) = None"
    by (simp add: grantingEnv_def)
  show ?thesis
    by (simp add: oauth_complete_login_def flow_exchange_granted flowState_def truthy_def
        saveOAuthTokens_def saveConfig_def loadConfig_def d)
qed

lemma flow_complete_rejected:
  "oauth_complete_login (rejectingEnv 0) ''abc#xyz'' False flowState
     = (completeFailure ''Failed to exchange authorization code for tokens'', flowState)"
  by (simp add: oauth_complete_login_def flow_exchange_rejected flowState_def truthy_def)

lemma flow_complete_keyRefusing:
  "oauth_complete_login keyRefusingEnv ''abc#xyz'' True flowState
     = (completeFailure ''Failed to create API key'', flowState)"
proof -
  have k: "createApiKey keyRefusingEnv ''new-access'' = None"
    by (simp add: createApiKey_def keyRefusingEnv_def)
  show ?thesis
    by (simp add: oauth_complete_login_def flow_exchange_keyRefusing flowState_def truthy_def k)
qed

lemma flow_complete_diskFailing:
  "oauth_complete_login diskFailingEnv ''abc#xyz'' False flowState
     = (completeFailure ''EACCES'', flowState\<lparr>currentPKCEVerifier := None\<rparr>)"
proof -
  have d: "disk diskFailingEnv = Some (Error ''EACCES'')"
    by (simp add: diskFailingEnv_def)
  show ?thesis
    by (simp add: oauth_complete_login_def flow_exchange_diskFailing flowState_def truthy_def
        saveOAuthTokens_def saveConfig_def d messageOr_def)
qed

text \<open>
  C6 says that the verifier of a login flow is discarded when the login completes, when
  it is cancelled and when the code exchange fails, and that it is never persisted. The
  handler does this on every path but the early returns of \<open>oauth:complete-login\<close>. A
  flow is in progress with its verifier in memory. When the login completes, when it is
  cancelled, and when saving the exchanged tokens throws (the \<open>catch\<close> block), the
  verifier is reset to \<open>null\<close>, and the configuration never holds it. But when the token
  endpoint rejects the code exchange, the handler answers "Failed to exchange
  authorization code for tokens" and the verifier is still in memory afterwards; the
  same happens when the exchange succeeds and the creation of the API key fails.
\<close>

theorem verifier_kept_after_failed_exchange:
  "currentPKCEVerifier flowState = Some ''ver-B_2''
   \<and> currentPKCEVerifier
        (snd (oauth_complete_login (grantingEnv 0) ''abc#xyz'' False flowState)) = None
   \<and> currentPKCEVerifier (snd (oauth_cancel flowState)) = None
   \<and> currentPKCEVerifier
        (snd (oauth_complete_login diskFailingEnv ''abc#xyz'' False flowState)) = None
   \<and> fst (exchangeCodeForTokens (rejectingEnv 0) ''abc#xyz'' ''ver-B_2'') = None
   \<and> fst (oauth_complete_login (rejectingEnv 0) ''abc#xyz'' False flowState)
        = completeFailure ''Failed to exchange authorization code for tokens''
   \<and> currentPKCEVerifier
        (snd (oauth_complete_login (rejectingEnv 0) ''abc#xyz'' False flowState))
        = Some ''ver-B_2''
   \<and> currentPKCEVerifier
        (snd (oauth_complete_login keyRefusingEnv ''abc#xyz'' True flowState))
        = Some ''ver-B_2''"
proof -
  have v: "currentPKCEVerifier flowState = Some ''ver-B_2''"
    by (simp add: flowState_def)
  have c: "currentPKCEVerifier (snd (oauth_cancel flowState)) = None"
    by (simp add: oauth_cancel_def)
  show ?thesis
    by (simp add: flow_complete_granted flow_complete_rejected flow_complete_diskFailing
        flow_complete_keyRefusing flow_exchange_rejected v c)
qed

text \<open>
  What the handlers do with the verifier and with the configuration, for every state and
  environment. Starting a login stores the generated verifier in the module variable.
  It is reset to \<open>null\<close> by \<open>oauth:cancel\<close>, by every \<open>oauth:complete-login\<close> that
  succeeds, and when saving the exchanged tokens throws; when the code exchange returns
  \<open>null\<close>, \<open>oauth:complete-login\<close> leaves the whole state, verifier included, as it was.
  The configuration is left alone by cancelling and by starting a login, and completing
  one leaves it alone or stores, under \<open>oauthTokens\<close>, the pair built from the answer of
  the token endpoint.
\<close>

lemma pkce_verifier_lifecycle:
  "currentPKCEVerifier (snd (oauth_cancel st)) = None
   \<and> config (snd (oauth_cancel st)) = config st
   \<and> config (snd (oauth_start_login e mode st)) = config st
   \<and> (\<forall>pkce. generatePKCE e = Inr pkce \<longrightarrow>
         currentPKCEVerifier (snd (oauth_start_login e mode st)) = Some (verifier pkce))
   \<and> (complete_success (fst (oauth_complete_login e c k st)) \<longrightarrow>
        currentPKCEVerifier (snd (oauth_complete_login e c k st)) = None)
   \<and> (\<forall>v tokens err. currentPKCEVerifier st = Some v \<and> v \<noteq> []
          \<and> fst (exchangeCodeForTokens e c v) = Some tokens \<and> \<not> k \<and> disk e = Some err \<longrightarrow>
        oauth_complete_login e c k st
          = (completeFailure (messageOr ''Unknown error'' err), st\<lparr>currentPKCEVerifier := None\<rparr>))
   \<and> (\<forall>v. currentPKCEVerifier st = Some v \<and> v \<noteq> []
          \<and> fst (exchangeCodeForTokens e c v) = None \<longrightarrow>
        snd (oauth_complete_login e c k st) = st)
   \<and> (config (snd (oauth_complete_login e c k st)) = config st
       \<or> (\<exists>v tokens. currentPKCEVerifier st = Some v
             \<and> fst (exchangeCodeForTokens e c v) = Some tokens
             \<and> config (snd (oauth_complete_login e c k st))
                 = (config st)\<lparr>oauthTokens := Some tokens\<rparr>))"
  by (auto simp: oauth_cancel_def oauth_start_login_def oauth_complete_login_def Let_def
      generatePKCEChallenge_def completeFailure_def truthy_def saveOAuthTokens_def saveConfig_def
      loadConfig_def
      split: option.splits sum.splits if_splits)

subsection \<open>The status of the login\<close>

text \<open>
  A pair that the program stores has the expiry that \<open>exchangeCodeForTokens\<close> and
  \<open>refreshAccessToken\<close> compute, the clock at the answer plus \<open>expires_in\<close> seconds, which
  is not 0 under a clock after the epoch and a lifetime that is not negative; and the
  operations that write the store keep every stored expiry away from 0 then.
\<close>

lemma tokensOfResponse_expires:
  assumes "tokensOfResponse e r = Some t"
  shows "\<exists>s j. r = Response True s (Some j) \<and> expires t = now_resp e + expires_in j * 1000"
  using assms
  by (auto simp: tokensOfResponse_def split: fetch_result.splits option.splits if_splits)

lemma tokensOfResponse_nonzero:
  assumes "tokensOfResponse e r = Some t" and "0 < now_resp e"
    and "\<And>s j. r = Response True s (Some j) \<Longrightarrow> 0 \<le> expires_in j"
  shows "expires t \<noteq> 0"
proof -
  from tokensOfResponse_expires [OF assms(1)] obtain s j
    where r: "r = Response True s (Some j)"
      and x: "expires t = now_resp e + expires_in j * 1000"
    by blast
  from assms(3) [OF r] have "0 \<le> expires_in j * 1000" by simp
  with assms(2) x show ?thesis by simp
qed

lemma getValidAccessToken_store:
  "fst (snd (getValidAccessToken e store)) = store
   \<or> (\<exists>t n. getOAuthTokens store = Some t
          \<and> tokensOfResponse e (token_endpoint e (RefreshRequest (refresh t))) = Some n
          \<and> fst (snd (getValidAccessToken e store)) = store\<lparr>oauthTokens := Some n\<rparr>)"
  by (auto simp: getValidAccessToken_def refreshAccessToken_eq saveOAuthTokens_def
      saveConfig_def loadConfig_def
      split: option.splits if_splits sum.splits)

lemma getValidAccessToken_keeps_expiry_nonzero:
  assumes "0 < now_resp e"
    and "\<And>req s j. token_endpoint e req = Response True s (Some j) \<Longrightarrow> 0 \<le> expires_in j"
    and "\<And>t. getOAuthTokens store = Some t \<Longrightarrow> expires t \<noteq> 0"
    and "getOAuthTokens (fst (snd (getValidAccessToken e store))) = Some t'"
  shows "expires t' \<noteq> 0"
  using getValidAccessToken_store [of e store]
proof (elim disjE exE conjE)
  assume "fst (snd (getValidAccessToken e store)) = store"
  with assms(3,4) show ?thesis by simp
next
  fix t n
  assume n: "tokensOfResponse e (token_endpoint e (RefreshRequest (refresh t))) = Some n"
    and s: "fst (snd (getValidAccessToken e store)) = store\<lparr>oauthTokens := Some n\<rparr>"
  from s assms(4) have "t' = n"
    by (simp add: getOAuthTokens_def loadConfig_def)
  with tokensOfResponse_nonzero [OF n assms(1)] assms(2) show ?thesis by blast
qed

lemma oauth_complete_login_keeps_expiry_nonzero:
  assumes "0 < now_resp e"
    and "\<And>req s j. token_endpoint e req = Response True s (Some j) \<Longrightarrow> 0 \<le> expires_in j"
    and "\<And>t. getOAuthTokens (config st) = Some t \<Longrightarrow> expires t \<noteq> 0"
    and "getOAuthTokens (config (snd (oauth_complete_login e c k st))) = Some t'"
  shows "expires t' \<noteq> 0"
proof -
  from pkce_verifier_lifecycle [of st e Max c k]
  consider "config (snd (oauth_complete_login e c k st)) = config st"
    | v n where "fst (exchangeCodeForTokens e c v) = Some n"
        "config (snd (oauth_complete_login e c k st)) = (config st)\<lparr>oauthTokens := Some n\<rparr>"
    by blast
  then show ?thesis
  proof cases
    case 1
    with assms(3,4) show ?thesis by simp
  next
    case 2
    from 2(2) assms(4) have "t' = n"
      by (simp add: getOAuthTokens_def loadConfig_def)
    moreover from 2(1)
    have "tokensOfResponse e (token_endpoint e (exchangeRequest c v)) = Some n"
      by (simp add: exchangeCodeForTokens_eq)
    ultimately show ?thesis
      using tokensOfResponse_nonzero [OF _ assms(1)] assms(2) by blast
  qed
qed

text \<open>
  C10. \<open>oauth:get-status\<close> reports \<open>authenticated: true\<close> exactly when a pair is stored,
  whether or not the stored expiry has passed, so a stale pair that cannot be refreshed
  is still reported as authenticated. \<open>expiresAt\<close> is \<open>null\<close> when no pair is stored, and
  it is the stored expiry when a pair is stored. A stored expiry is the clock at the
  answer of the token endpoint plus the lifetime of the token, never the number 0, which
  is the one number that \<open>tokens?.expires || null\<close> does not pass on.
\<close>

theorem oauth_get_status_reports:
  "authenticated (oauth_get_status st) = (getOAuthTokens (config st) \<noteq> None)
   \<and> (getOAuthTokens (config st) = None \<longrightarrow> expiresAt (oauth_get_status st) = None)
   \<and> (\<forall>t. getOAuthTokens (config st) = Some t \<and> expires t \<noteq> 0 \<longrightarrow>
         (\<forall>e. isTokenExpired e t \<longrightarrow> authenticated (oauth_get_status st))
       \<and> expiresAt (oauth_get_status st) = Some (expires t))
   \<and> (\<forall>e r t. tokensOfResponse e r = Some t \<longrightarrow>
         (\<exists>s j. r = Response True s (Some j)
                \<and> expires t = now_resp e + expires_in j * 1000
                \<and> (0 < now_resp e \<and> 0 \<le> expires_in j \<longrightarrow> expires t \<noteq> 0)))"
proof -
  have a: "authenticated (oauth_get_status st) = (getOAuthTokens (config st) \<noteq> None)"
    by (simp add: oauth_get_status_def Let_def)
  have b: "getOAuthTokens (config st) = None \<longrightarrow> expiresAt (oauth_get_status st) = None"
    by (simp add: oauth_get_status_def Let_def)
  have c: "\<forall>t. getOAuthTokens (config st) = Some t \<and> expires t \<noteq> 0 \<longrightarrow>
         (\<forall>e. isTokenExpired e t \<longrightarrow> authenticated (oauth_get_status st))
       \<and> expiresAt (oauth_get_status st) = Some (expires t)"
    by (simp add: oauth_get_status_def Let_def)
  have d: "\<forall>e r t. tokensOfResponse e r = Some t \<longrightarrow>
         (\<exists>s j. r = Response True s (Some j)
                \<and> expires t = now_resp e + expires_in j * 1000
                \<and> (0 < now_resp e \<and> 0 \<le> expires_in j \<longrightarrow> expires t \<noteq> 0))"
  proof (intro allI impI)
    fix e r t
    assume h: "tokensOfResponse e r = Some t"
    from tokensOfResponse_expires [OF h] obtain s j
      where r: "r = Response True s (Some j)"
        and x: "expires t = now_resp e + expires_in j * 1000"
      by blast
    have "0 < now_resp e \<and> 0 \<le> expires_in j \<longrightarrow> expires t \<noteq> 0"
      using x by auto
    with r x show "\<exists>s j. r = Response True s (Some j)
                \<and> expires t = now_resp e + expires_in j * 1000
                \<and> (0 < now_resp e \<and> 0 \<le> expires_in j \<longrightarrow> expires t \<noteq> 0)"
      by blast
  qed
  from a b c d show ?thesis by (intro conjI)
qed

theorem oauth_get_status_reports_witness:
  "getOAuthTokens (config flowState) = None
   \<and> \<not> authenticated (oauth_get_status flowState)
   \<and> expiresAt (oauth_get_status flowState) = None
   \<and> getOAuthTokens (config staleState) = Some staleTokens
   \<and> expires staleTokens \<noteq> 0
   \<and> isTokenExpired (rejectingEnv 2000000) staleTokens
   \<and> authenticated (oauth_get_status staleState)
   \<and> expiresAt (oauth_get_status staleState) = Some 1000000"
proof -
  have h0: "getOAuthTokens (config flowState) = None"
    by (simp add: flowState_def emptyStore_tokens)
  have h1: "getOAuthTokens (config staleState) = Some staleTokens"
    by (simp add: staleState_def staleStore_tokens)
  have h2: "isTokenExpired (rejectingEnv 2000000) staleTokens"
    by (simp add: expired_at_800000)
  have h3: "expires staleTokens \<noteq> 0"
    by (simp add: staleTokens_fields)
  note t0 = oauth_get_status_reports [of flowState]
  note t1 = oauth_get_status_reports [of staleState]
  have r0: "\<not> authenticated (oauth_get_status flowState)"
    using t0 [THEN conjunct1] h0 by simp
  have r0': "expiresAt (oauth_get_status flowState) = None"
    by (rule t0 [THEN conjunct2, THEN conjunct1, THEN mp, OF h0])
  note c = t1 [THEN conjunct2, THEN conjunct2, THEN conjunct1, THEN spec, THEN mp,
                OF conjI, OF h1 h3]
  have r1: "authenticated (oauth_get_status staleState)"
    by (rule c [THEN conjunct1, THEN spec, THEN mp, OF h2])
  have r2: "expiresAt (oauth_get_status staleState) = Some 1000000"
    using c [THEN conjunct2] by (simp add: staleTokens_fields)
  show ?thesis
    by (intro conjI) (rule h0 r0 r0' h1 h3 h2 r1 r2)+
qed

section \<open>Properties of the API key configuration\<close>

text \<open>
  C8, as stated, fails. With \<open>ANTHROPIC_API_KEY\<close> set in the environment, a key is stored
  and then cleared with \<open>null\<close>: the status after the second call reports
  \<open>configured: true\<close> and \<open>source: env\<close>.
\<close>

theorem env_key_reported_after_clearing:
  "fst (config_set_api_key envKeyEnv None
         (snd (config_set_api_key envKeyEnv (Some ''sk-ant-local'') flowState)))
     = Inr (True, \<lparr>configured = True, source = Some Env\<rparr>)
   \<and> config_get_api_key_status envKeyEnv
        (snd (config_set_api_key envKeyEnv None
               (snd (config_set_api_key envKeyEnv (Some ''sk-ant-local'') flowState))))
     \<noteq> \<lparr>configured = False, source = None\<rparr>"
  by (simp add: config_set_api_key_def config_get_api_key_status_def getApiKeyStatus_def
      setApiKey_def saveConfig_def loadConfig_def normalizeKey_def envKeyEnv_def rejectingEnv_def
      Let_def)

text \<open>
  C8, amended. After two \<open>config.setApiKey\<close> calls in sequence, the second with \<open>null\<close>
  and completing, the status returned by the second call, and by \<open>getApiKeyStatus\<close>
  afterwards, reports \<open>configured: false\<close> and \<open>source: null\<close> when
  \<open>ANTHROPIC_API_KEY\<close> is not set in the environment; when it is set, the status reports
  \<open>configured: true\<close> and \<open>source: env\<close>.
\<close>

theorem status_after_clearing_api_key:
  assumes "disk e = None"
  shows "fst (config_set_api_key e None (snd (config_set_api_key e' key st)))
           = Inr (True, if ANTHROPIC_API_KEY e = None then \<lparr>configured = False, source = None\<rparr>
                        else \<lparr>configured = True, source = Some Env\<rparr>)
       \<and> config_get_api_key_status e
            (snd (config_set_api_key e None (snd (config_set_api_key e' key st))))
           = (if ANTHROPIC_API_KEY e = None then \<lparr>configured = False, source = None\<rparr>
              else \<lparr>configured = True, source = Some Env\<rparr>)"
  using assms
  by (simp add: config_set_api_key_def config_get_api_key_status_def getApiKeyStatus_def
      setApiKey_def saveConfig_def loadConfig_def normalizeKey_def Let_def)

theorem status_after_clearing_api_key_witness:
  "disk (rejectingEnv 0) = None \<and> ANTHROPIC_API_KEY (rejectingEnv 0) = None
   \<and> fst (config_set_api_key (rejectingEnv 0) None
            (snd (config_set_api_key (rejectingEnv 0) (Some ''sk-ant-local'') flowState)))
       = Inr (True, \<lparr>configured = False, source = None\<rparr>)
   \<and> config_get_api_key_status (rejectingEnv 0)
        (snd (config_set_api_key (rejectingEnv 0) None
               (snd (config_set_api_key (rejectingEnv 0) (Some ''sk-ant-local'') flowState))))
       = \<lparr>configured = False, source = None\<rparr>"
proof -
  have d: "disk (rejectingEnv 0) = None" and k: "ANTHROPIC_API_KEY (rejectingEnv 0) = None"
    by (simp_all add: rejectingEnv_def)
  from status_after_clearing_api_key
         [OF d, of "rejectingEnv 0" "Some ''sk-ant-local''" flowState] d k
  show ?thesis by simp
qed

section \<open>Properties of the chat page\<close>

lemma mountedChat_fields:
  "\<not> isInitialLoadRef mountedChat" "timers mountedChat = []" "writes mountedChat = []"
  "currentConversationId mountedChat = None" "currentSessionId mountedChat = None"
  "chatWorkspaceDir mountedChat = Some ''/home/u/claude-agent''"
  "\<not> isLoading mountedChat" "messages mountedChat = []" "pendingAttachments mountedChat = []"
  by (simp_all add: mountedChat_def autoSaveEffect_def initialChat_def)

subsection \<open>Selecting attachments\<close>

lemma pa_file_acceptFile: "pa_file (acceptFile w k file) = file"
  by (simp add: acceptFile_def Let_def split: option.splits prod.splits)

lemma processFiles_accepted:
  "\<exists>new. fst (processFiles w dir files accepted rejection) = accepted @ new
         \<and> map pa_file new = filter (\<lambda>f. \<not> oversized w f) files"
proof (induction files arbitrary: accepted rejection)
  case Nil
  then show ?case by simp
next
  case (Cons f fs)
  show ?case
  proof (cases "oversized w f")
    case True
    with Cons.IH [of accepted "Some (rejectionMessage w dir f)"] show ?thesis
      by (simp add: oversized_def)
  next
    case False
    from Cons.IH [of "accepted @ [acceptFile w (length accepted) f]" rejection]
    obtain new where
      "fst (processFiles w dir fs (accepted @ [acceptFile w (length accepted) f]) rejection)
         = (accepted @ [acceptFile w (length accepted) f]) @ new"
      and "map pa_file new = filter (\<lambda>f. \<not> oversized w f) fs"
      by blast
    with False show ?thesis
      by (intro exI [of _ "acceptFile w (length accepted) f # new"])
         (simp add: oversized_def pa_file_acceptFile)
  qed
qed

lemma processFiles_rejection:
  "snd (processFiles w dir files accepted rejection) =
     (if filter (oversized w) files = [] then rejection
      else Some (rejectionMessage w dir (last (filter (oversized w) files))))"
  by (induction files arbitrary: accepted rejection) (auto simp: oversized_def)

lemma rejectionMessage_nonempty: "rejectionMessage w dir file \<noteq> []"
  by (simp add: rejectionMessage_def Let_def)

lemma handleFilesSelected_pending:
  "\<exists>new. pendingAttachments (handleFilesSelected w files st) = pendingAttachments st @ new
         \<and> map pa_file new = filter (\<lambda>f. \<not> oversized w f) files"
proof (cases "files = []")
  case True
  then show ?thesis by (simp add: handleFilesSelected_def)
next
  case False
  from processFiles_accepted [of w "chatWorkspaceDir st" files "[]" None]
  obtain new where n: "fst (processFiles w (chatWorkspaceDir st) files [] None) = new"
    and m: "map pa_file new = filter (\<lambda>f. \<not> oversized w f) files"
    by auto
  from False n have "pendingAttachments (handleFilesSelected w files st) = pendingAttachments st @ new"
    by (auto simp: handleFilesSelected_def Let_def split: prod.splits)
  with m show ?thesis by blast
qed

lemma handleFilesSelected_error:
  assumes "filter (oversized w) files \<noteq> []"
  shows "attachmentError (handleFilesSelected w files st) =
     Some (rejectionMessage w (chatWorkspaceDir st) (last (filter (oversized w) files)))"
proof -
  from assms have ne: "files \<noteq> []" by auto
  have r: "snd (processFiles w (chatWorkspaceDir st) files [] None) =
      Some (rejectionMessage w (chatWorkspaceDir st) (last (filter (oversized w) files)))"
    using assms by (simp add: processFiles_rejection)
  show ?thesis
    using ne r
    by (auto simp: handleFilesSelected_def Let_def truthy_def rejectionMessage_nonempty
        split: prod.splits)
qed

lemma serializeAttachments_sizes:
  "serializeAttachments as = Inr ps \<Longrightarrow> map sp_size ps = map (\<lambda>a. file_size (pa_file a)) as"
  by (induction as arbitrary: ps) (auto split: sum.splits)

lemma handleSendMessage_payload_sizes:
  assumes "p \<in> set (snd (handleSendMessage w st))" and "payload_attachments p = Some ps"
  shows "map sp_size ps = map (\<lambda>a. file_size (pa_file a)) (pendingAttachments st)"
  using assms
  by (auto simp: handleSendMessage_def Let_def serializeAttachments_sizes
      split: if_splits sum.splits option.splits list.splits)


lemma handleFilesSelected_within_limit:
  assumes "list_all (\<lambda>a. file_size (pa_file a) \<le> MAX_ATTACHMENT_BYTES w) (pendingAttachments st)"
  shows "list_all (\<lambda>a. file_size (pa_file a) \<le> MAX_ATTACHMENT_BYTES w)
           (pendingAttachments (handleFilesSelected w files st))"
proof -
  from handleFilesSelected_pending [of w files st] obtain new
    where p: "pendingAttachments (handleFilesSelected w files st) = pendingAttachments st @ new"
      and m: "map pa_file new = filter (\<lambda>f. \<not> oversized w f) files"
    by blast
  have "file_size (pa_file a) \<le> MAX_ATTACHMENT_BYTES w" if "a \<in> set new" for a
  proof -
    from that have "pa_file a \<in> set (map pa_file new)" by simp
    then have "\<not> oversized w (pa_file a)" by (simp add: m)
    then show ?thesis by (simp add: oversized_def)
  qed
  with assms p show ?thesis by (auto simp: list_all_iff)
qed

lemma handleSendMessage_forwards_within_limit:
  assumes "list_all (\<lambda>a. file_size (pa_file a) \<le> MAX_ATTACHMENT_BYTES w) (pendingAttachments st)"
    and "p \<in> set (snd (handleSendMessage w st))" and "payload_attachments p = Some ps"
  shows "list_all (\<lambda>x. sp_size x \<le> MAX_ATTACHMENT_BYTES w) ps"
proof -
  from handleSendMessage_payload_sizes [OF assms(2,3)]
  have e: "map sp_size ps = map (\<lambda>a. file_size (pa_file a)) (pendingAttachments st)" .
  have "sp_size x \<le> MAX_ATTACHMENT_BYTES w" if "x \<in> set ps" for x
  proof -
    from that have "sp_size x \<in> set (map sp_size ps)" by simp
    then have "sp_size x \<in> set (map (\<lambda>a. file_size (pa_file a)) (pendingAttachments st))"
      by (simp only: e)
    with assms(1) show ?thesis by (auto simp: list_all_iff)
  qed
  then show ?thesis by (simp add: list_all_iff)
qed

text \<open>
  What \<open>handleFilesSelected\<close> does for every selection. Exactly the files at or below
  \<open>MAX_ATTACHMENT_BYTES\<close> are appended, in order, to the pending attachments, so a file
  above the limit is never added; with the two lemmas above, no attachment above the
  limit is pending or forwarded by \<open>handleSendMessage\<close> when none was pending before. When
  the selection has a file above the limit, the attachment error is the rejection message
  of the last such file of the selection: its name in quotes, the limit in whole MB, and
  the request to drop it into the workspace directory.
\<close>

lemma handleFilesSelected_size_gate:
  "(\<exists>new. pendingAttachments (handleFilesSelected w files st) = pendingAttachments st @ new
          \<and> map pa_file new = filter (\<lambda>f. file_size f \<le> MAX_ATTACHMENT_BYTES w) files)
   \<and> (filter (\<lambda>f. file_size f > MAX_ATTACHMENT_BYTES w) files \<noteq> [] \<longrightarrow>
        attachmentError (handleFilesSelected w files st) =
          Some ([CHR 0x22]
                @ file_name (last (filter (\<lambda>f. file_size f > MAX_ATTACHMENT_BYTES w) files))
                @ [CHR 0x22] @ '' is larger than ''
                @ toString (MAX_ATTACHMENT_BYTES w div (1024 * 1024)) @ '' MB. ''
                @ ''Please drop it directly into the Claude Agent workspace at ''
                @ (case chatWorkspaceDir st of
                     None \<Rightarrow> ''the configured claude-agent workspace directory''
                   | Some d \<Rightarrow> d)
                @ ''.''))"
proof -
  have o: "oversized w = (\<lambda>f. file_size f > MAX_ATTACHMENT_BYTES w)"
    by (rule ext) (simp add: oversized_def)
  have n: "(\<lambda>f. \<not> oversized w f) = (\<lambda>f. file_size f \<le> MAX_ATTACHMENT_BYTES w)"
    by (rule ext) (simp add: oversized_def not_less)
  have a: "\<exists>new. pendingAttachments (handleFilesSelected w files st) = pendingAttachments st @ new
          \<and> map pa_file new = filter (\<lambda>f. file_size f \<le> MAX_ATTACHMENT_BYTES w) files"
    using handleFilesSelected_pending [of w files st] by (simp add: n)
  have c: "filter (\<lambda>f. file_size f > MAX_ATTACHMENT_BYTES w) files \<noteq> [] \<Longrightarrow>
        attachmentError (handleFilesSelected w files st) =
          Some (rejectionMessage w (chatWorkspaceDir st)
                  (last (filter (\<lambda>f. file_size f > MAX_ATTACHMENT_BYTES w) files)))"
    using handleFilesSelected_error [of w files st] by (simp add: o)
  from a c show ?thesis
    by (simp add: rejectionMessage_def MAX_ATTACHMENT_SIZE_MB_def
        WORKSPACE_FALLBACK_LABEL_def Let_def split: option.splits)
qed

text \<open>
  C5 says that every selected file above \<open>MAX_ATTACHMENT_BYTES\<close> is kept out of the
  pending attachments and gets a rejection message that names it. Two files above the
  limit of 32 MiB are selected together, \<open>a.bin\<close> and then \<open>b.bin\<close>. Neither is added to
  the pending attachments. A rejection message is produced, with the limit and the
  workspace directory, but there is one message only and it names \<open>b.bin\<close>: the message
  built for \<open>a.bin\<close> was overwritten in the loop, and the name \<open>a.bin\<close> does not occur
  in what the user is shown.
\<close>

theorem first_oversized_file_not_named:
  "oversized sampleRenderer (sampleFile ''a.bin'' 40000000)
   \<and> oversized sampleRenderer (sampleFile ''b.bin'' 50000000)
   \<and> pendingAttachments
        (handleFilesSelected sampleRenderer
           [sampleFile ''a.bin'' 40000000, sampleFile ''b.bin'' 50000000] mountedChat) = []
   \<and> attachmentError
        (handleFilesSelected sampleRenderer
           [sampleFile ''a.bin'' 40000000, sampleFile ''b.bin'' 50000000] mountedChat)
       = Some ([CHR 0x22] @ ''b.bin'' @ [CHR 0x22] @ '' is larger than 32 MB. Please drop it directly into the Claude Agent workspace at /home/u/claude-agent.'')
   \<and> \<not> occursIn ''a.bin''
        (the (attachmentError
           (handleFilesSelected sampleRenderer
              [sampleFile ''a.bin'' 40000000, sampleFile ''b.bin'' 50000000] mountedChat)))"
  by code_simp

subsection \<open>Submitting a turn\<close>

lemma handleSendMessage_noop:
  assumes "(trim (inputValue st) = [] \<and> pendingAttachments st = []) \<or> isLoading st"
  shows "handleSendMessage w st = (st, [])"
  using assms by (auto simp: handleSendMessage_def Let_def)

lemma handleSendMessage_sends:
  assumes "\<not> ((trim (inputValue st) = [] \<and> pendingAttachments st = []) \<or> isLoading st)"
    and "serializeAttachments (pendingAttachments st) = Inr ps"
  shows "snd (handleSendMessage w st) =
     [\<lparr>payload_text = trim (inputValue st),
       payload_attachments = (if ps \<noteq> [] then Some ps else None)\<rparr>]"
  using assms
  by (auto simp: handleSendMessage_def Let_def split: sum.splits option.splits list.splits)

lemma handleSendMessage_unreadable:
  assumes "\<not> ((trim (inputValue st) = [] \<and> pendingAttachments st = []) \<or> isLoading st)"
    and "serializeAttachments (pendingAttachments st) = Inl err"
  shows "snd (handleSendMessage w st) = []
       \<and> \<not> isLoading (fst (handleSendMessage w st))
       \<and> messages (fst (handleSendMessage w st)) =
           messages st
           @ [\<lparr>msg_id = toString (clock w 0), msg_role = User,
                msg_content = trim (inputValue st), msg_timestamp = clock w 1,
                msg_attachments = Some (map toMessageAttachment (pendingAttachments st))\<rparr>,
              errorMessage w (''Error preparing attachments: ''
                              @ messageOr ''Unknown error occurred'' err)]"
proof -
  from assms(2) have ne: "pendingAttachments st \<noteq> []" by auto
  with assms show ?thesis
    by (simp add: handleSendMessage_def Let_def)
qed

lemma trim_sample: "trim '' hi '' = ''hi''" "trim ''hi'' = ''hi''" "trim ''   '' = []"
  by (simp_all add: trim_def isWhiteSpace_def)

lemma blankDraft_fields:
  "trim (inputValue blankDraft) = []" "pendingAttachments blankDraft = []"
  by (simp_all add: blankDraft_def trim_sample mountedChat_fields)

lemma readableDraft_fields:
  "trim (inputValue readableDraft) = ''hi''" "pendingAttachments readableDraft = [notePending]"
  "\<not> isLoading readableDraft"
  by (simp_all add: readableDraft_def trim_sample mountedChat_fields)

lemma unreadableDraft_fields:
  "trim (inputValue unreadableDraft) = ''hi''" "pendingAttachments unreadableDraft = [gonePending]"
  "\<not> isLoading unreadableDraft" "messages unreadableDraft = []"
  by (simp_all add: unreadableDraft_def trim_sample mountedChat_fields)

lemma readableDraft_sendable:
  "\<not> ((trim (inputValue readableDraft) = [] \<and> pendingAttachments readableDraft = [])
      \<or> isLoading readableDraft)"
  by (simp add: readableDraft_fields)

lemma unreadableDraft_sendable:
  "\<not> ((trim (inputValue unreadableDraft) = [] \<and> pendingAttachments unreadableDraft = [])
      \<or> isLoading unreadableDraft)"
  by (simp add: unreadableDraft_fields)

lemma readableDraft_serialized:
  "serializeAttachments (pendingAttachments readableDraft) =
     Inr [\<lparr>sp_name = ''note.pdf'', sp_mimeType = ''application/pdf'',
           sp_size = 10, sp_data = ''%PDF''\<rparr>]"
  by (simp add: readableDraft_fields notePending_def sampleFile_def)

lemma unreadableDraft_serialized:
  "serializeAttachments (pendingAttachments unreadableDraft) = Inl (Error ''NotReadableError'')"
  by (simp add: unreadableDraft_fields gonePending_def unreadableFile_def sampleFile_def)

text \<open>
  C4, as stated, fails. The draft has text, one pending attachment and no turn is
  streaming, but the bytes of the attachment cannot be read: the handler appends the user
  message and an error message, and issues no \<open>chat.sendMessage\<close> request at all.
\<close>

theorem no_send_when_attachment_unreadable:
  "trim (inputValue unreadableDraft) \<noteq> [] \<and> pendingAttachments unreadableDraft \<noteq> []
   \<and> \<not> isLoading unreadableDraft
   \<and> length (snd (handleSendMessage sampleRenderer unreadableDraft)) \<noteq> 1
   \<and> messages (fst (handleSendMessage sampleRenderer unreadableDraft))
        \<noteq> messages unreadableDraft"
proof -
  note r = handleSendMessage_unreadable
             [OF unreadableDraft_sendable unreadableDraft_serialized, of sampleRenderer]
  have a: "length (snd (handleSendMessage sampleRenderer unreadableDraft)) \<noteq> 1"
    by (simp add: r [THEN conjunct1])
  have b: "messages (fst (handleSendMessage sampleRenderer unreadableDraft))
        \<noteq> messages unreadableDraft"
    by (simp add: r [THEN conjunct2, THEN conjunct2])
  from a b show ?thesis
    by (simp add: unreadableDraft_fields)
qed

text \<open>
  C4, amended. A submit-turn request is a no-op (the state is unchanged and no
  \<open>chat.sendMessage\<close> request is issued) whenever the trimmed input is empty and no
  attachment is pending, or a turn is streaming. Otherwise, when the bytes of every
  pending attachment can be read, exactly one \<open>chat.sendMessage\<close> request is issued, with
  the trimmed text and the attachments; and when an attachment cannot be read, no request
  is issued: the user message and an "Error preparing attachments" message are appended
  and loading is cleared.
\<close>

theorem handleSendMessage_guard:
  "((trim (inputValue st) = [] \<and> pendingAttachments st = []) \<or> isLoading st \<longrightarrow>
      handleSendMessage w st = (st, []))
   \<and> (\<not> ((trim (inputValue st) = [] \<and> pendingAttachments st = []) \<or> isLoading st) \<longrightarrow>
        (\<forall>ps. serializeAttachments (pendingAttachments st) = Inr ps \<longrightarrow>
           snd (handleSendMessage w st) =
             [\<lparr>payload_text = trim (inputValue st),
               payload_attachments = (if ps \<noteq> [] then Some ps else None)\<rparr>])
      \<and> (\<forall>err. serializeAttachments (pendingAttachments st) = Inl err \<longrightarrow>
           snd (handleSendMessage w st) = []
           \<and> \<not> isLoading (fst (handleSendMessage w st))
           \<and> messages (fst (handleSendMessage w st)) =
               messages st
               @ [\<lparr>msg_id = toString (clock w 0), msg_role = User,
                    msg_content = trim (inputValue st), msg_timestamp = clock w 1,
                    msg_attachments = Some (map toMessageAttachment (pendingAttachments st))\<rparr>,
                  errorMessage w (''Error preparing attachments: ''
                                  @ messageOr ''Unknown error occurred'' err)]))"
  using handleSendMessage_noop [of st w] handleSendMessage_sends [of st _ w]
    handleSendMessage_unreadable [of st _ w]
  by blast

theorem handleSendMessage_guard_witness:
  "trim (inputValue blankDraft) = [] \<and> pendingAttachments blankDraft = []
   \<and> handleSendMessage sampleRenderer blankDraft = (blankDraft, [])
   \<and> isLoading (readableDraft\<lparr>isLoading := True\<rparr>)
   \<and> handleSendMessage sampleRenderer (readableDraft\<lparr>isLoading := True\<rparr>)
       = (readableDraft\<lparr>isLoading := True\<rparr>, [])
   \<and> \<not> ((trim (inputValue readableDraft) = [] \<and> pendingAttachments readableDraft = [])
          \<or> isLoading readableDraft)
   \<and> snd (handleSendMessage sampleRenderer readableDraft) =
       [\<lparr>payload_text = ''hi'',
         payload_attachments = Some [\<lparr>sp_name = ''note.pdf'', sp_mimeType = ''application/pdf'',
                                      sp_size = 10, sp_data = ''%PDF''\<rparr>]\<rparr>]
   \<and> serializeAttachments (pendingAttachments unreadableDraft) = Inl (Error ''NotReadableError'')
   \<and> snd (handleSendMessage sampleRenderer unreadableDraft) = []"
proof -
  have l: "isLoading (readableDraft\<lparr>isLoading := True\<rparr>)"
    by simp
  note g = handleSendMessage_guard [where w = sampleRenderer]
  have r1: "handleSendMessage sampleRenderer blankDraft = (blankDraft, [])"
    by (rule g [THEN conjunct1, THEN mp])
       (rule disjI1, rule conjI, rule blankDraft_fields(1), rule blankDraft_fields(2))
  have r2: "handleSendMessage sampleRenderer (readableDraft\<lparr>isLoading := True\<rparr>)
       = (readableDraft\<lparr>isLoading := True\<rparr>, [])"
    by (rule g [THEN conjunct1, THEN mp]) (rule disjI2, rule l)
  have r3: "snd (handleSendMessage sampleRenderer readableDraft) =
       [\<lparr>payload_text = ''hi'',
         payload_attachments = Some [\<lparr>sp_name = ''note.pdf'', sp_mimeType = ''application/pdf'',
                                      sp_size = 10, sp_data = ''%PDF''\<rparr>]\<rparr>]"
    using g [THEN conjunct2, THEN mp, OF readableDraft_sendable, THEN conjunct1, THEN spec,
             THEN mp, OF readableDraft_serialized]
    by (simp add: readableDraft_fields(1))
  have r4: "snd (handleSendMessage sampleRenderer unreadableDraft) = []"
    by (rule g [THEN conjunct2, THEN mp, OF unreadableDraft_sendable, THEN conjunct2, THEN spec,
          THEN mp, OF unreadableDraft_serialized, THEN conjunct1])
  show ?thesis
    by (intro conjI)
       (rule blankDraft_fields r1 l r2 readableDraft_sendable r3 unreadableDraft_serialized r4)+
qed

subsection \<open>Debounced auto-save\<close>

lemma autoSaveEffect_debounced:
  assumes "\<not> isInitialLoadRef st" and "atMostOwnTimer st"
  shows "debounced (writes st) (currentConversationId st) (currentSessionId st) t (messages st)
           (autoSaveEffect t st)"
  using assms
  by (auto simp: debounced_def atMostOwnTimer_def autoSaveEffect_def clearSaveTimeout_def Let_def
      split: option.splits list.splits)

lemma atMostOwnTimer_messages: "atMostOwnTimer (st\<lparr>messages := m\<rparr>) = atMostOwnTimer st"
  by (simp add: atMostOwnTimer_def split: list.splits)

lemma debounced_atMostOwnTimer:
  assumes "debounced W C S t m st"
  shows "atMostOwnTimer st"
  using assms by (auto simp: debounced_def atMostOwnTimer_def split: if_splits)

lemma setMessages_debounced:
  assumes "debounced W C S t0 m0 st"
  shows "debounced W C S t m (setMessages t m st)"
proof -
  let ?st = "st\<lparr>messages := m\<rparr>"
  have a: "\<not> isInitialLoadRef ?st"
    using assms by (simp add: debounced_def)
  have b: "atMostOwnTimer ?st"
    using debounced_atMostOwnTimer [OF assms] by (simp add: atMostOwnTimer_messages)
  have c: "writes ?st = W" "currentConversationId ?st = C" "currentSessionId ?st = S"
    "messages ?st = m"
    using assms by (simp_all add: debounced_def)
  from autoSaveEffect_debounced [OF a b, of t] show ?thesis
    by (simp only: setMessages_def c)
qed

lemma tick_before_deadline:
  assumes "debounced W C S t0 m st" and "t < t0 + 2000"
  shows "tick w t st = st"
  using assms by (auto simp: debounced_def tick_def split: if_splits)

lemma run_debounced:
  assumes "debounced W C S t0 m0 st" and "inWindow t0 evs"
  shows "debounced W C S (fst (lastMutation (t0, m0) evs)) (snd (lastMutation (t0, m0) evs))
           (run w evs st)"
  using assms
proof (induction evs arbitrary: t0 m0 st)
  case Nil
  then show ?case by simp
next
  case (Cons ev evs)
  show ?case
  proof (cases ev)
    case (Mutate t m)
    from Cons.prems(1) have "debounced W C S t m (setMessages t m st)"
      by (rule setMessages_debounced)
    moreover from Cons.prems(2) Mutate have "inWindow t evs" by simp
    ultimately have "debounced W C S (fst (lastMutation (t, m) evs))
        (snd (lastMutation (t, m) evs)) (run w evs (setMessages t m st))"
      by (rule Cons.IH)
    with Mutate show ?thesis by simp
  next
    case (Tick t)
    from Cons.prems(2) Tick have lt: "t < t0 + 2000" and w: "inWindow t0 evs" by simp_all
    from Cons.prems(1) lt have "tick w t st = st" by (rule tick_before_deadline)
    with Cons.IH [OF Cons.prems(1) w] Tick show ?thesis by simp
  qed
qed

lemma writes_autoSaveEffect: "writes (autoSaveEffect t st) = writes st"
  by (simp add: autoSaveEffect_def clearSaveTimeout_def Let_def split: option.splits)

lemma writes_setCurrentConversationId: "writes (setCurrentConversationId t v st) = writes st"
  by (simp add: setCurrentConversationId_def writes_autoSaveEffect)

lemma writes_saveCallback:
  "writes (saveCallback w t c st) =
     writes st @ [saveCall w (saved_conversationId c) (saved_sessionId c) (saved_messages c)]"
  by (simp add: saveCallback_def saveCall_def Let_def writes_setCurrentConversationId
      split: sum.splits prod.splits)

lemma tick_after_deadline:
  assumes "debounced W C S t0 m st" and "m \<noteq> []" and "t0 + 2000 \<le> t"
  shows "writes (tick w t st) = W @ [saveCall w C S m]"
  using assms by (simp add: debounced_def tick_def writes_saveCallback)

lemma debounced_timers:
  assumes "debounced W C S t m st" and "m \<noteq> []"
  shows "\<exists>h. timers st = [(h, \<lparr>deadline = t + 2000, saved_messages = m,
                                saved_conversationId = C, saved_sessionId = S\<rparr>)]"
  using assms by (auto simp: debounced_def)

text \<open>
  Every state that the page reaches from its mount by mutations and timer runs has at
  most its own save timer pending.
\<close>

lemma atMostOwnTimer_autoSaveEffect:
  assumes "atMostOwnTimer st"
  shows "atMostOwnTimer (autoSaveEffect t st)"
  using assms
  by (auto simp: atMostOwnTimer_def autoSaveEffect_def clearSaveTimeout_def Let_def
      split: option.splits list.splits)

lemma atMostOwnTimer_tick:
  assumes "atMostOwnTimer st"
  shows "atMostOwnTimer (tick w t st)"
proof (cases "find (\<lambda>p. deadline (snd p) \<le> t) (timers st)")
  case None
  with assms show ?thesis by (simp add: tick_def)
next
  case (Some p)
  obtain h c where p: "p = (h, c)" by (cases p)
  from Some assms have one: "timers st = [(h, c)]"
    by (auto simp: atMostOwnTimer_def p split: list.splits if_splits)
  let ?st = "st\<lparr>timers := filter (\<lambda>q. fst q \<noteq> h) (timers st)\<rparr>"
  have e: "timers ?st = []" by (simp add: one)
  have own: "\<And>st' :: chat. timers st' = [] \<Longrightarrow> atMostOwnTimer st'"
    by (simp add: atMostOwnTimer_def)
  have "atMostOwnTimer (saveCallback w t c ?st)"
    using e
    by (auto simp: saveCallback_def Let_def setCurrentConversationId_def
        intro!: own atMostOwnTimer_autoSaveEffect split: sum.splits)
  with Some p show ?thesis by (simp add: tick_def)
qed

lemma atMostOwnTimer_run:
  assumes "atMostOwnTimer st"
  shows "atMostOwnTimer (run w evs st)"
  using assms
proof (induction evs arbitrary: st)
  case Nil
  then show ?case by simp
next
  case (Cons ev evs)
  have "atMostOwnTimer (step w ev st)"
  proof (cases ev)
    case (Mutate t m)
    from Cons.prems have "atMostOwnTimer (st\<lparr>messages := m\<rparr>)"
      by (simp add: atMostOwnTimer_messages)
    then show ?thesis
      by (simp add: Mutate setMessages_def atMostOwnTimer_autoSaveEffect)
  next
    case (Tick t)
    with Cons.prems show ?thesis by (simp add: atMostOwnTimer_tick)
  qed
  then show ?case by (simp add: Cons.IH)
qed

lemma atMostOwnTimer_mountedChat: "atMostOwnTimer mountedChat"
  by (simp add: atMostOwnTimer_def mountedChat_fields)

text \<open>
  C3, as stated, fails. Two mutations of the message list come within one debounce
  window, the second one to the empty list: the pending timer is cancelled, none is
  started, and the conversation store is never written.
\<close>

theorem no_write_when_last_mutation_empties_list:
  "inWindow 0 [Mutate 100 []]
   \<and> timers (run sampleRenderer [Mutate 0 [helloMessage], Mutate 100 []] mountedChat) = []
   \<and> writes (run sampleRenderer [Mutate 0 [helloMessage], Mutate 100 [], Tick 5000] mountedChat)
       = []"
  by code_simp

text \<open>
  C3, amended. Let the message list be mutated \<open>N \<ge> 1\<close> times within one debounce window
  (each mutation less than 2 seconds after the one before it, and no timer run at or after
  a deadline in between), starting with the initial-load flag clear and at most the page's
  own save timer pending, and let the final message list be non-empty. Then nothing is
  written during the window; at its end exactly one timer is pending, due 2 seconds after
  the last mutation, since every mutation cancelled the pending timer and started a new
  one; it does not fire before that; and when it fires it issues exactly one store call:
  an update of the current conversation, or a create when there is none, with the
  serialised final message list.
\<close>

theorem debounced_save_writes_final_messages_once:
  assumes "\<not> isInitialLoadRef st" and "atMostOwnTimer st" and "inWindow t1 evs"
    and "snd (lastMutation (t1, m1) evs) \<noteq> []"
  shows "writes (run w (Mutate t1 m1 # evs) st) = writes st
       \<and> (\<exists>h. timers (run w (Mutate t1 m1 # evs) st) =
                 [(h, \<lparr>deadline = fst (lastMutation (t1, m1) evs) + 2000,
                       saved_messages = snd (lastMutation (t1, m1) evs),
                       saved_conversationId = currentConversationId st,
                       saved_sessionId = currentSessionId st\<rparr>)])
       \<and> (\<forall>t. t < fst (lastMutation (t1, m1) evs) + 2000 \<longrightarrow>
              tick w t (run w (Mutate t1 m1 # evs) st) = run w (Mutate t1 m1 # evs) st)
       \<and> (\<forall>t. fst (lastMutation (t1, m1) evs) + 2000 \<le> t \<longrightarrow>
              writes (tick w t (run w (Mutate t1 m1 # evs) st)) =
                writes st @ [saveCall w (currentConversationId st) (currentSessionId st)
                                      (snd (lastMutation (t1, m1) evs))])"
proof -
  let ?C = "currentConversationId st" and ?S = "currentSessionId st"
  let ?tN = "fst (lastMutation (t1, m1) evs)" and ?mN = "snd (lastMutation (t1, m1) evs)"
  let ?st = "st\<lparr>messages := m1\<rparr>"
  have "debounced (writes ?st) (currentConversationId ?st) (currentSessionId ?st) t1
          (messages ?st) (autoSaveEffect t1 ?st)"
    using assms(1,2) by (intro autoSaveEffect_debounced) (simp_all add: atMostOwnTimer_messages)
  then have first: "debounced (writes st) ?C ?S t1 m1 (setMessages t1 m1 st)"
    by (simp add: setMessages_def)
  from run_debounced [OF first assms(3), of w]
  have final: "debounced (writes st) ?C ?S ?tN ?mN (run w (Mutate t1 m1 # evs) st)"
    by simp
  from final have a: "writes (run w (Mutate t1 m1 # evs) st) = writes st"
    by (simp add: debounced_def)
  from debounced_timers [OF final assms(4)]
  have b: "\<exists>h. timers (run w (Mutate t1 m1 # evs) st) =
             [(h, \<lparr>deadline = ?tN + 2000, saved_messages = ?mN,
                   saved_conversationId = ?C, saved_sessionId = ?S\<rparr>)]" .
  have c: "\<forall>t. t < ?tN + 2000 \<longrightarrow>
      tick w t (run w (Mutate t1 m1 # evs) st) = run w (Mutate t1 m1 # evs) st"
    using tick_before_deadline [OF final] by blast
  have d: "\<forall>t. ?tN + 2000 \<le> t \<longrightarrow>
      writes (tick w t (run w (Mutate t1 m1 # evs) st)) = writes st @ [saveCall w ?C ?S ?mN]"
    using tick_after_deadline [OF final assms(4)] by blast
  from a b c d show ?thesis by blast
qed

lemma sampleEvents_last:
  "lastMutation (0, [helloMessage]) sampleEvents = (1500, [helloMessage, replyMessage])"
  by (simp add: sampleEvents_def)

theorem debounced_save_writes_final_messages_once_witness:
  "\<not> isInitialLoadRef mountedChat \<and> atMostOwnTimer mountedChat \<and> inWindow 0 sampleEvents
   \<and> snd (lastMutation (0, [helloMessage]) sampleEvents) \<noteq> []
   \<and> writes (run sampleRenderer (Mutate 0 [helloMessage] # sampleEvents) mountedChat) = []
   \<and> tick sampleRenderer 3499 (run sampleRenderer (Mutate 0 [helloMessage] # sampleEvents) mountedChat)
       = run sampleRenderer (Mutate 0 [helloMessage] # sampleEvents) mountedChat
   \<and> writes (tick sampleRenderer 3500
               (run sampleRenderer (Mutate 0 [helloMessage] # sampleEvents) mountedChat))
       = [ConversationCreate
            (serializeMessagesForStorage sampleRenderer [helloMessage, replyMessage]) None]"
proof -
  have h3: "inWindow 0 sampleEvents"
    by (simp add: sampleEvents_def)
  have h4: "snd (lastMutation (0, [helloMessage]) sampleEvents) \<noteq> []"
    by (simp add: sampleEvents_last)
  have c: "saveCall sampleRenderer None None [helloMessage, replyMessage]
      = ConversationCreate (serializeMessagesForStorage sampleRenderer [helloMessage, replyMessage])
          None"
    by (simp add: saveCall_def truthy_def)
  have before: "(3499::int) < fst (lastMutation (0, [helloMessage]) sampleEvents) + 2000"
    and after: "fst (lastMutation (0, [helloMessage]) sampleEvents) + 2000 \<le> (3500::int)"
    by (simp_all add: sampleEvents_last)
  note t = debounced_save_writes_final_messages_once
             [OF mountedChat_fields(1) atMostOwnTimer_mountedChat h3 h4, of sampleRenderer]
  have a: "writes (run sampleRenderer (Mutate 0 [helloMessage] # sampleEvents) mountedChat) = []"
    using t [THEN conjunct1] by (simp only: mountedChat_fields(3))
  have b: "tick sampleRenderer 3499
             (run sampleRenderer (Mutate 0 [helloMessage] # sampleEvents) mountedChat)
       = run sampleRenderer (Mutate 0 [helloMessage] # sampleEvents) mountedChat"
    by (rule t [THEN conjunct2, THEN conjunct2, THEN conjunct1, THEN spec, THEN mp, OF before])
  have d: "writes (tick sampleRenderer 3500
               (run sampleRenderer (Mutate 0 [helloMessage] # sampleEvents) mountedChat))
       = [ConversationCreate
            (serializeMessagesForStorage sampleRenderer [helloMessage, replyMessage]) None]"
    using t [THEN conjunct2, THEN conjunct2, THEN conjunct2, THEN spec, THEN mp, OF after]
    by (simp only: mountedChat_fields(3,4,5) sampleEvents_last snd_conv c append_Nil)
  show ?thesis
    by (intro conjI) (rule mountedChat_fields(1) atMostOwnTimer_mountedChat h3 h4 a b d)+
qed

text \<open>
  A create that succeeds sets the conversation identifier, which runs the effect again and
  starts another timer: two seconds later the same messages are written once more, as an
  update.
\<close>

lemma create_is_followed_by_update:
  "writes (run sampleRenderer [Mutate 0 [helloMessage], Tick 2000, Tick 3999] mountedChat)
     = [ConversationCreate (serializeMessagesForStorage sampleRenderer [helloMessage]) None]
   \<and> writes (run sampleRenderer [Mutate 0 [helloMessage], Tick 2000, Tick 4000] mountedChat)
     = [ConversationCreate (serializeMessagesForStorage sampleRenderer [helloMessage]) None,
        ConversationUpdate ''conv-1'' (serializeMessagesForStorage sampleRenderer [helloMessage])
          None]"
proof -
  have s: "conversationStore sampleRenderer = (\<lambda>c. Inr (True, Some ''conv-1''))"
    by (simp add: sampleRenderer_def)
  show ?thesis
    by (simp add: setMessages_def tick_def saveCallback_def autoSaveEffect_def
        clearSaveTimeout_def setCurrentConversationId_def mountedChat_def initialChat_def
        truthy_def helloMessage_def s Let_def)
qed

end
